theory Spec2Isabelle
  imports Main "HOL-Library.AList" "HOL-Library.List_Lexorder" "HOL-Library.Word"
begin

section \<open>Page layout comparison: the model\<close>

text \<open>
  A shallow embedding of \<^verbatim>\<open>src/app/mcp/tools/page_layout_comparison.py\<close>.
  Python's \<^verbatim>\<open>str\<close> is a sequence of Unicode code points; it is modelled as a list of
  natural numbers, so that \<^verbatim>\<open>strip\<close> removes exactly what Python removes and the
  order of \<^verbatim>\<open>sorted\<close> is the order of code point sequences. \<^verbatim>\<open>bytes\<close> is a list of
  8-bit words.
\<close>

subsection \<open>Strings\<close>

type_synonym pystr = "nat list"
type_synonym bytes = "8 word list"

definition str :: "string \<Rightarrow> pystr" where
  "str s = map of_char s"

text \<open>\<^verbatim>\<open>str.isspace\<close> of one character: the code points CPython treats as whitespace.\<close>

definition py_isspace :: "nat \<Rightarrow> bool" where
  "py_isspace c \<longleftrightarrow>
     (9 \<le> c \<and> c \<le> 13) \<or> (28 \<le> c \<and> c \<le> 32) \<or> c = 133 \<or> c = 160 \<or> c = 5760 \<or>
     (8192 \<le> c \<and> c \<le> 8202) \<or> c = 8232 \<or> c = 8233 \<or> c = 8239 \<or> c = 8287 \<or> c = 12288"

text \<open>\<^verbatim>\<open>s.strip()\<close>: leading and trailing whitespace removed.\<close>

definition strip :: "pystr \<Rightarrow> pystr" where
  "strip s = rev (dropWhile py_isspace (rev (dropWhile py_isspace s)))"

text \<open>\<^verbatim>\<open>s.split(sep)\<close> for a separator of one character: never an empty list.\<close>

fun py_split :: "nat \<Rightarrow> pystr \<Rightarrow> pystr list" where
  "py_split sep [] = [[]]"
| "py_split sep (c # cs) =
     (if c = sep then [] # py_split sep cs
      else (case py_split sep cs of
              [] \<Rightarrow> [[c]]
            | w # ws \<Rightarrow> (c # w) # ws))"

text \<open>\<^verbatim>\<open>s.endswith(suffix)\<close> and \<^verbatim>\<open>sub in s\<close>.\<close>

definition endswith :: "pystr \<Rightarrow> pystr \<Rightarrow> bool" where
  "endswith s suffix \<longleftrightarrow>
     length suffix \<le> length s \<and> drop (length s - length suffix) s = suffix"

fun contains :: "pystr \<Rightarrow> pystr \<Rightarrow> bool" where
  "contains sub [] = (sub = [])"
| "contains sub (c # cs) = (take (length sub) (c # cs) = sub \<or> contains sub cs)"

text \<open>\<^verbatim>\<open>sep.join(lst)\<close>, and the two characters a string literal of this file cannot hold.\<close>

fun join :: "pystr \<Rightarrow> pystr list \<Rightarrow> pystr" where
  "join sep [] = []"
| "join sep [x] = x"
| "join sep (x # y # ys) = x @ sep @ join sep (y # ys)"

definition dquote :: pystr where
  "dquote = [34]"

definition newline :: pystr where
  "newline = [10]"

subsection \<open>Exceptions\<close>

text \<open>
  An exception is its class and the text \<^verbatim>\<open>str(e)\<close> gives. \<open>LibraryError\<close> stands for
  every other class a library call may raise (its first argument is the class name).
\<close>

datatype exn_class =
    ValueError | RuntimeError | TimeoutError | XMLSyntaxError
  | UnicodeDecodeError | UnicodeEncodeError | LibraryError pystr

datatype py_exn = Exn (exn_class: exn_class) (exn_str: pystr)

subsection \<open>XML elements as lxml presents them\<close>

text \<open>
  An element has a namespace URI and a local name (lxml's tag \<^verbatim>\<open>{uri}local\<close>), the text
  before its first child (\<^verbatim>\<open>None\<close> when there is none) and its children in document
  order. A comment or processing instruction is a child whose tag matches no name.
\<close>

datatype element =
  Element (el_ns: pystr) (el_local: pystr) (el_text: "pystr option") (el_children: "element list")

definition METADATA_NS :: pystr where
  "METADATA_NS = str ''http://soap.sforce.com/2006/04/metadata''"

text \<open>\<^verbatim>\<open>e.findall("m:name", ns)\<close>: the children of \<open>e\<close> with that name, in document order.\<close>

definition findall :: "element \<Rightarrow> pystr \<Rightarrow> element list" where
  "findall e name = filter (\<lambda>c. el_ns c = METADATA_NS \<and> el_local c = name) (el_children e)"

text \<open>\<^verbatim>\<open>e.find("m:name", ns)\<close>: the first such child, or \<^verbatim>\<open>None\<close>.\<close>

definition find_child :: "element \<Rightarrow> pystr \<Rightarrow> element option" where
  "find_child e name = (case findall e name of [] \<Rightarrow> None | c # _ \<Rightarrow> Some c)"

subsection \<open>The libraries the program calls\<close>

text \<open>
  The behaviour of lxml, the codecs, base64, zipfile and os.path is not part of the
  repository: each call is a parameter, and every theorem holds for whatever these
  functions compute. A call that may raise returns a sum, \<open>Inl\<close> the exception.
\<close>

record zipfile =
  namelist :: "pystr list"
  read :: "pystr \<Rightarrow> py_exn + bytes"

record lib =
  fromstring :: "bytes \<Rightarrow> py_exn + element"
  utf8_encode :: "pystr \<Rightarrow> py_exn + bytes"
  utf8_decode :: "bytes \<Rightarrow> py_exn + pystr"
  lower :: "pystr \<Rightarrow> pystr"
  b64decode :: "pystr \<Rightarrow> py_exn + bytes"
  open_zip :: "bytes \<Rightarrow> py_exn + zipfile"
  path_join :: "pystr \<Rightarrow> pystr \<Rightarrow> pystr"
  path_dirname :: "pystr \<Rightarrow> pystr"
  path_abspath :: "pystr \<Rightarrow> pystr"

subsection \<open>The layout parser\<close>

record layout =
  sections :: "(pystr \<times> pystr list) list"
  all_fields :: "pystr set"
  related_lists :: "pystr set"

text \<open>
  \<open>sections\<close> is a Python dict: an association list in insertion order, where
  \<^verbatim>\<open>sections[label] = v\<close> is \<open>AList.update\<close> (an existing key keeps its place and gets the
  new value). The local variables \<^verbatim>\<open>sections\<close>, \<^verbatim>\<open>all_fields\<close> and \<^verbatim>\<open>related_lists\<close> of the
  source are \<open>secs\<close>, \<open>flds\<close> and \<open>rels\<close> in the loops below.
\<close>

text \<open>Lines 242-243: the label of a section element.\<close>

definition section_label :: "element \<Rightarrow> pystr" where
  "section_label section =
     (case find_child section (str ''label'') of
        None \<Rightarrow> str ''Unnamed Section''
      | Some lbl_el \<Rightarrow> strip (case el_text lbl_el of None \<Rightarrow> [] | Some t \<Rightarrow> t))"

text \<open>
  Lines 248-250 and 258-260: the name an element contributes through its child \<open>name\<close>,
  \<^verbatim>\<open>el is not None and el.text and el.text.strip()\<close>, then \<^verbatim>\<open>el.text.strip()\<close>.
\<close>

definition bound_name :: "element \<Rightarrow> pystr \<Rightarrow> pystr option" where
  "bound_name item name =
     (case find_child item name of
        None \<Rightarrow> None
      | Some f_el \<Rightarrow>
          (case el_text f_el of
             None \<Rightarrow> None
           | Some t \<Rightarrow> if t \<noteq> [] \<and> strip t \<noteq> [] then Some (strip t) else None))"

text \<open>The loop over the items of one column (lines 247-252).\<close>

fun items_loop :: "element list \<Rightarrow> pystr list \<times> pystr set \<Rightarrow> pystr list \<times> pystr set" where
  "items_loop [] st = st"
| "items_loop (item # items) (section_fields, flds) =
     (case bound_name item (str ''field'') of
        None \<Rightarrow> items_loop items (section_fields, flds)
      | Some fname \<Rightarrow> items_loop items (section_fields @ [fname], insert fname flds))"

text \<open>The loop over the columns of one section (line 246).\<close>

fun columns_loop :: "element list \<Rightarrow> pystr list \<times> pystr set \<Rightarrow> pystr list \<times> pystr set" where
  "columns_loop [] st = st"
| "columns_loop (col # cols) st =
     columns_loop cols (items_loop (findall col (str ''layoutItems'')) st)"

text \<open>The loop over the sections (lines 241-254).\<close>

fun sections_loop ::
  "element list \<Rightarrow> (pystr \<times> pystr list) list \<times> pystr set \<Rightarrow> (pystr \<times> pystr list) list \<times> pystr set"
where
  "sections_loop [] st = st"
| "sections_loop (section # rest) (secs, flds) =
     (let label = section_label section;
          (section_fields, flds') =
             columns_loop (findall section (str ''layoutColumns'')) ([], flds)
      in sections_loop rest (AList.update label section_fields secs, flds'))"

text \<open>The loop over the related lists (lines 257-260).\<close>

fun related_loop :: "element list \<Rightarrow> pystr set \<Rightarrow> pystr set" where
  "related_loop [] rels = rels"
| "related_loop (rl # rls) rels =
     (case bound_name rl (str ''relatedList'') of
        None \<Rightarrow> related_loop rls rels
      | Some name \<Rightarrow> related_loop rls (insert name rels))"

text \<open>Lines 236-266: the model built from the root element.\<close>

definition layout_of_root :: "element \<Rightarrow> layout" where
  "layout_of_root root =
     (let (secs, flds) = sections_loop (findall root (str ''layoutSections'')) ([], {});
          rels = related_loop (findall root (str ''relatedLists'')) {}
      in \<lparr>sections = secs, all_fields = flds, related_lists = rels\<rparr>)"

text \<open>
  \<^verbatim>\<open>_parse_layout\<close>. Line 232 is inside the \<^verbatim>\<open>try\<close>: an \<^verbatim>\<open>XMLSyntaxError\<close> raised there
  becomes a \<^verbatim>\<open>ValueError\<close> with the parser's message, and any other exception of
  \<^verbatim>\<open>encode\<close> or \<^verbatim>\<open>fromstring\<close> propagates.
\<close>

definition parse_layout :: "lib \<Rightarrow> pystr \<Rightarrow> py_exn + layout" where
  "parse_layout L xml_content =
     (case (case utf8_encode L xml_content of Inl e \<Rightarrow> Inl e | Inr b \<Rightarrow> fromstring L b) of
        Inl exc \<Rightarrow>
          if exn_class exc = XMLSyntaxError
          then Inl (Exn ValueError (str ''Could not parse layout XML: '' @ exn_str exc))
          else Inl exc
      | Inr root \<Rightarrow> Inr (layout_of_root root))"

subsection \<open>The comparison engine\<close>

record diff =
  fields_missing_in_target :: "pystr list"
  fields_extra_in_target :: "pystr list"
  sections_missing_in_target :: "pystr list"
  sections_extra_in_target :: "pystr list"
  related_lists_missing_in_target :: "pystr list"
  related_lists_extra_in_target :: "pystr list"
  source_field_count :: nat
  target_field_count :: nat
  source_section_count :: nat
  target_section_count :: nat
  source_related_list_count :: nat
  target_related_list_count :: nat

text \<open>\<^verbatim>\<open>sorted(s)\<close> of a set is \<open>sorted_list_of_set\<close>, \<^verbatim>\<open>len(s)\<close> is \<open>card\<close>.\<close>

definition compare :: "layout \<Rightarrow> layout \<Rightarrow> diff" where
  "compare source target =
     (let src_fields = all_fields source;
          tgt_fields = all_fields target;
          src_sections = set (map fst (sections source));
          tgt_sections = set (map fst (sections target));
          src_rl = related_lists source;
          tgt_rl = related_lists target
      in \<lparr>fields_missing_in_target = sorted_list_of_set (src_fields - tgt_fields),
          fields_extra_in_target = sorted_list_of_set (tgt_fields - src_fields),
          sections_missing_in_target = sorted_list_of_set (src_sections - tgt_sections),
          sections_extra_in_target = sorted_list_of_set (tgt_sections - src_sections),
          related_lists_missing_in_target = sorted_list_of_set (src_rl - tgt_rl),
          related_lists_extra_in_target = sorted_list_of_set (tgt_rl - src_rl),
          source_field_count = card src_fields,
          target_field_count = card tgt_fields,
          source_section_count = card src_sections,
          target_section_count = card tgt_sections,
          source_related_list_count = card src_rl,
          target_related_list_count = card tgt_rl\<rparr>)"

subsection \<open>The archive extractor\<close>

text \<open>
  Lines 205-208: the first of the two suffixes that the lowered base name ends with is cut
  off; \<^verbatim>\<open>base[: -len(suffix)]\<close> keeps the first \<open>len(base) - len(suffix)\<close> characters.
\<close>

fun strip_suffix :: "lib \<Rightarrow> pystr \<Rightarrow> pystr list \<Rightarrow> pystr" where
  "strip_suffix L base [] = base"
| "strip_suffix L base (suffix # rest) =
     (if endswith (lower L base) suffix then take (length base - length suffix) base
      else strip_suffix L base rest)"

text \<open>Lines 199-202: whether an entry of the archive is a layout file.\<close>

definition is_layout_entry :: "lib \<Rightarrow> pystr \<Rightarrow> bool" where
  "is_layout_entry L entry \<longleftrightarrow>
     contains (str ''/layouts/'') (lower L entry) \<and>
     (endswith (lower L entry) (str ''.layout-meta.xml'') \<or> endswith (lower L entry) (str ''.layout''))"

text \<open>Line 204 and 205-208: the key of an entry (\<open>47\<close> is the character \<^verbatim>\<open>/\<close>).\<close>

definition layout_key :: "lib \<Rightarrow> pystr \<Rightarrow> pystr" where
  "layout_key L entry =
     strip_suffix L (last (py_split 47 entry)) [str ''.layout-meta.xml'', str ''.layout'']"

text \<open>
  The loop over \<^verbatim>\<open>zf.namelist()\<close> (lines 197-210). \<^verbatim>\<open>zf.read\<close> and \<^verbatim>\<open>decode\<close> may raise;
  nothing in the loop catches an exception.
\<close>

fun entries_loop ::
  "lib \<Rightarrow> zipfile \<Rightarrow> pystr list \<Rightarrow> (pystr \<rightharpoonup> pystr) \<Rightarrow> py_exn + (pystr \<rightharpoonup> pystr)"
where
  "entries_loop L zf [] result = Inr result"
| "entries_loop L zf (entry # entries) result =
     (if \<not> is_layout_entry L entry then entries_loop L zf entries result
      else (case read zf entry of
              Inl e \<Rightarrow> Inl e
            | Inr data \<Rightarrow>
                (case utf8_decode L data of
                   Inl e \<Rightarrow> Inl e
                 | Inr xml \<Rightarrow> entries_loop L zf entries (result(layout_key L entry \<mapsto> xml)))))"

definition extract_layouts_from_zip :: "lib \<Rightarrow> bytes \<Rightarrow> py_exn + (pystr \<rightharpoonup> pystr)" where
  "extract_layouts_from_zip L zip_bytes =
     (case open_zip L zip_bytes of
        Inl e \<Rightarrow> Inl e
      | Inr zf \<Rightarrow> entries_loop L zf (namelist zf) Map.empty)"

subsection \<open>The world: clock, network, credentials, files\<close>

record request =
  req_url :: pystr
  req_body :: bytes
  req_action :: pystr

record http_response =
  status_code :: nat
  resp_text :: pystr
  resp_content :: bytes

datatype csv_value = StrCell pystr | IntCell nat

datatype column =
    Source_Layout_Name | Target_Layout_Name | Status
  | Fields_Missing_in_Target | Fields_Extra_in_Target | Fields_Missing_Count | Fields_Extra_Count
  | Sections_Missing_in_Target | Sections_Extra_in_Target
  | Sections_Missing_Count | Sections_Extra_Count
  | Related_Lists_Missing_in_Target | Related_Lists_Extra_in_Target
  | Related_Lists_Missing_Count | Related_Lists_Extra_Count
  | Source_Field_Count | Target_Field_Count | Source_Section_Count | Target_Section_Count
  | Source_Related_List_Count | Target_Related_List_Count

text \<open>
  A row is a dict whose keys are always the 21 columns: a function from the columns.
\<close>

type_synonym csv_row = "column \<Rightarrow> csv_value"

text \<open>
  A request is the URL, the encoded envelope and the SOAP action of one \<^verbatim>\<open>requests.post\<close>.
  \<open>clock\<close> is \<^verbatim>\<open>time.time()\<close> in milliseconds. \<open>http\<close> is the network: given every request
  posted so far, the latest last, it tells how long the latest \<^verbatim>\<open>requests.post\<close> takes
  (a sleep that overruns counts into the next call) and what it returns or raises.
  \<open>posts\<close> is the log of the calls of \<^verbatim>\<open>requests.post\<close>, \<open>files\<close> what \<^verbatim>\<open>_write_csv\<close> has written (the rows under
  the header), \<open>fs_fault\<close> the error \<^verbatim>\<open>os.makedirs\<close> or \<^verbatim>\<open>open\<close> raises on a path, if any.
  The credential stores and \<^verbatim>\<open>get_config\<close> are modules outside the repository's files.
\<close>

record world =
  clock :: nat
  http :: "request list \<Rightarrow> nat \<times> (py_exn + http_response)"
  posts :: "request list"
  files :: "pystr \<rightharpoonup> csv_row list"
  made_dirs :: "pystr list"
  fs_fault :: "pystr \<Rightarrow> py_exn option"
  cwd :: pystr
  now_stamp :: pystr
  config_api_version :: "py_exn + pystr"
  default_connection :: "py_exn + pystr \<times> pystr"
  stored_tokens :: "py_exn + (pystr \<rightharpoonup> pystr \<times> pystr)"

text \<open>\<^verbatim>\<open>str(n)\<close> of a non-negative integer (\<open>48\<close> is the character \<^verbatim>\<open>0\<close>).\<close>

fun decimal :: "nat \<Rightarrow> pystr" where
  "decimal n = (if n < 10 then [48 + n] else decimal (n div 10) @ [48 + n mod 10])"

declare decimal.simps [simp del]

text \<open>\<^verbatim>\<open>_get_org_credentials\<close>: \<open>(instance_url, access_token, api_version)\<close>.\<close>

definition get_org_credentials :: "world \<Rightarrow> pystr option \<Rightarrow> py_exn + pystr \<times> pystr \<times> pystr" where
  "get_org_credentials w user_id =
     (let api_version = (case config_api_version w of Inl _ \<Rightarrow> str ''59.0'' | Inr v \<Rightarrow> v)
      in case user_id of
           None \<Rightarrow>
             (case default_connection w of
                Inl e \<Rightarrow> Inl e
              | Inr (sf_instance, session_id) \<Rightarrow>
                  Inr (str ''https://'' @ sf_instance, session_id, api_version))
         | Some uid \<Rightarrow>
             (case stored_tokens w of
                Inl e \<Rightarrow> Inl e
              | Inr tokens \<Rightarrow>
                  (case tokens uid of
                     None \<Rightarrow>
                       Inl (Exn ValueError
                         (str ''No active session found for org user_id='' @ [39] @ uid @ [39] @
                          str ''. Run list_connected_orgs to see connected orgs, then login first.''))
                   | Some (instance_url, access_token) \<Rightarrow>
                       Inr (instance_url, access_token, api_version))))"

subsection \<open>The retrieve protocol client\<close>

text \<open>
  \<^verbatim>\<open>_build_retrieve_envelope\<close> and \<^verbatim>\<open>_build_status_envelope\<close>: the text of the envelope
  (lines 68-92 and 98-110), then \<^verbatim>\<open>soap.encode("utf-8")\<close>, which raises when the token, the
  version, a name or the id holds a code point that has no encoding. The id is
  \<^verbatim>\<open>id_el.text\<close>; when it is \<^verbatim>\<open>None\<close> the text holds the word \<^verbatim>\<open>None\<close>. The status envelope
  does not use its \<^verbatim>\<open>api_version\<close>.
\<close>

definition retrieve_envelope_text :: "pystr \<Rightarrow> pystr \<Rightarrow> pystr list \<Rightarrow> pystr" where
  "retrieve_envelope_text token api_version layout_names =
     (let members_xml =
            join (newline @ str ''                        '')
              (map (\<lambda>n. str ''<met:members>'' @ n @ str ''</met:members>'') layout_names)
      in
      str ''<?xml version='' @ dquote @ str ''1.0'' @ dquote @ str '' encoding='' @ dquote @
        str ''UTF-8'' @ dquote @ str ''?>'' @ newline @
      str ''<soapenv:Envelope xmlns:soapenv='' @ dquote @
        str ''http://schemas.xmlsoap.org/soap/envelope/'' @ dquote @ newline @
      str ''                  xmlns:met='' @ dquote @ METADATA_NS @ dquote @ str ''>'' @ newline @
      str ''    <soapenv:Header>'' @ newline @
      str ''        <met:CallOptions><met:client>SF-MCP-PageLayout</met:client></met:CallOptions>'' @
        newline @
      str ''        <met:SessionHeader><met:sessionId>'' @ token @
        str ''</met:sessionId></met:SessionHeader>'' @ newline @
      str ''    </soapenv:Header>'' @ newline @
      str ''    <soapenv:Body>'' @ newline @
      str ''        <met:retrieve>'' @ newline @
      str ''            <met:retrieveRequest>'' @ newline @
      str ''                <met:apiVersion>'' @ api_version @ str ''</met:apiVersion>'' @ newline @
      str ''                <met:unpackaged>'' @ newline @
      str ''                    <met:types>'' @ newline @
      str ''                        '' @ members_xml @ newline @
      str ''                        <met:name>Layout</met:name>'' @ newline @
      str ''                    </met:types>'' @ newline @
      str ''                    <met:version>'' @ api_version @ str ''</met:version>'' @ newline @
      str ''                </met:unpackaged>'' @ newline @
      str ''            </met:retrieveRequest>'' @ newline @
      str ''        </met:retrieve>'' @ newline @
      str ''    </soapenv:Body>'' @ newline @
      str ''</soapenv:Envelope>'')"

definition build_retrieve_envelope :: "lib \<Rightarrow> pystr \<Rightarrow> pystr \<Rightarrow> pystr list \<Rightarrow> py_exn + bytes" where
  "build_retrieve_envelope L token api_version layout_names =
     utf8_encode L (retrieve_envelope_text token api_version layout_names)"

definition status_envelope_text :: "pystr \<Rightarrow> pystr \<Rightarrow> pystr option \<Rightarrow> pystr" where
  "status_envelope_text token api_version retrieve_id =
     str ''<?xml version='' @ dquote @ str ''1.0'' @ dquote @ str '' encoding='' @ dquote @
       str ''UTF-8'' @ dquote @ str ''?>'' @ newline @
     str ''<soapenv:Envelope xmlns:soapenv='' @ dquote @
       str ''http://schemas.xmlsoap.org/soap/envelope/'' @ dquote @ newline @
     str ''                  xmlns:met='' @ dquote @ METADATA_NS @ dquote @ str ''>'' @ newline @
     str ''    <soapenv:Header>'' @ newline @
     str ''        <met:SessionHeader><met:sessionId>'' @ token @
       str ''</met:sessionId></met:SessionHeader>'' @ newline @
     str ''    </soapenv:Header>'' @ newline @
     str ''    <soapenv:Body>'' @ newline @
     str ''        <met:checkRetrieveStatus>'' @ newline @
     str ''            <met:asyncProcessId>'' @
       (case retrieve_id of None \<Rightarrow> str ''None'' | Some t \<Rightarrow> t) @
       str ''</met:asyncProcessId>'' @ newline @
     str ''            <met:includeZip>true</met:includeZip>'' @ newline @
     str ''        </met:checkRetrieveStatus>'' @ newline @
     str ''    </soapenv:Body>'' @ newline @
     str ''</soapenv:Envelope>''"

definition build_status_envelope :: "lib \<Rightarrow> pystr \<Rightarrow> pystr \<Rightarrow> pystr option \<Rightarrow> py_exn + bytes" where
  "build_status_envelope L token api_version retrieve_id =
     utf8_encode L (status_envelope_text token api_version retrieve_id)"

text \<open>\<^verbatim>\<open>_soap_post\<close>: one request, logged; the clock advances by the time the call takes.\<close>

definition soap_post ::
  "lib \<Rightarrow> pystr \<Rightarrow> bytes \<Rightarrow> pystr \<Rightarrow> world \<Rightarrow> (py_exn + element) \<times> world" where
  "soap_post L url body action w =
     (let log = posts w @ [\<lparr>req_url = url, req_body = body, req_action = action\<rparr>];
          w' = w\<lparr>posts := log, clock := clock w + fst (http w log)\<rparr>
      in case snd (http w log) of
           Inl e \<Rightarrow> (Inl e, w')
         | Inr resp \<Rightarrow>
             if status_code resp \<noteq> 200
             then (Inl (Exn RuntimeError
                     (str ''Metadata API call '' @ [39] @ action @ [39] @ str '' failed (HTTP '' @
                      decimal (status_code resp) @ str ''): '' @ take 600 (resp_text resp))), w')
             else (fromstring L (resp_content resp), w'))"

text \<open>\<^verbatim>\<open>root.find(".//{ns}name")\<close>: the first descendant with that name, in document order.\<close>

fun descendants :: "element \<Rightarrow> element list" where
  "descendants (Element ns name t cs) = concat (map (\<lambda>c. c # descendants c) cs)"

definition find_el :: "element \<Rightarrow> pystr \<Rightarrow> element option" where
  "find_el root local_name =
     List.find (\<lambda>e. el_ns e = METADATA_NS \<and> el_local e = local_name) (descendants root)"

text \<open>Line 159: the completion flag of a status response.\<close>

definition is_done :: "element \<Rightarrow> bool" where
  "is_done status_root \<longleftrightarrow>
     (case find_el status_root (str ''done'') of
        None \<Rightarrow> False
      | Some done_el \<Rightarrow> el_text done_el = Some (str ''true''))"

text \<open>Lines 163-179: what a completed status response gives.\<close>

definition completed :: "lib \<Rightarrow> pystr \<Rightarrow> element \<Rightarrow> py_exn + (pystr \<rightharpoonup> pystr)" where
  "completed L instance_url status_root =
     (if (case find_el status_root (str ''status'') of
            None \<Rightarrow> False
          | Some status_el \<Rightarrow> el_text status_el = Some (str ''Failed''))
      then Inl (Exn RuntimeError
             (str ''Retrieve failed on '' @ instance_url @ str '': '' @
              (case find_el status_root (str ''errorMessage'') of
                 None \<Rightarrow> str ''unknown error''
               | Some err_el \<Rightarrow> (case el_text err_el of None \<Rightarrow> str ''None'' | Some t \<Rightarrow> t))))
      else (case find_el status_root (str ''zipFile'') of
              None \<Rightarrow> Inr Map.empty
            | Some zip_el \<Rightarrow>
                (case el_text zip_el of
                   None \<Rightarrow> Inr Map.empty
                 | Some t \<Rightarrow>
                     if t = [] then Inr Map.empty
                     else (case b64decode L t of
                             Inl e \<Rightarrow> Inl e
                           | Inr zip_bytes \<Rightarrow> extract_layouts_from_zip L zip_bytes))))"

text \<open>
  The polling loop (lines 154-183): \<^verbatim>\<open>while time.time() < deadline\<close>, with
  \<^verbatim>\<open>time.sleep(3)\<close> after a response that is not done. The deadline is tested only here,
  before a status request is built and posted. The loop ends because the clock advances.
\<close>

function poll ::
  "lib \<Rightarrow> pystr \<Rightarrow> pystr \<Rightarrow> pystr \<Rightarrow> pystr \<Rightarrow> pystr option \<Rightarrow> nat \<Rightarrow> world \<Rightarrow>
     (py_exn + (pystr \<rightharpoonup> pystr)) \<times> world"
where
  "poll L instance_url token api_version meta_url retrieve_id deadline w =
     (if clock w < deadline then
        (case build_status_envelope L token api_version retrieve_id of
           Inl e \<Rightarrow> (Inl e, w)
         | Inr status_body \<Rightarrow>
             (case soap_post L meta_url status_body (str ''checkRetrieveStatus'') w of
                (Inl e, w') \<Rightarrow> (Inl e, w')
              | (Inr status_root, w') \<Rightarrow>
                  if \<not> is_done status_root
                  then poll L instance_url token api_version meta_url retrieve_id deadline
                         (w'\<lparr>clock := clock w' + 3000\<rparr>)
                  else (completed L instance_url status_root, w')))
      else (Inl (Exn TimeoutError
              (str ''Metadata API retrieve from '' @ instance_url @
               str '' did not complete within 120 s.'')), w))"
  by pat_completeness auto
termination
  by (relation "measure (\<lambda>(L, instance_url, token, api_version, meta_url, retrieve_id, deadline, w).
                  deadline - clock w)")
     (auto simp: soap_post_def Let_def split: sum.splits if_splits)

declare poll.simps [simp del]

text \<open>
  \<^verbatim>\<open>_fetch_all_layouts\<close>. The envelope is built (line 142) before anything is posted; the
  deadline is set after the answer to the \<^verbatim>\<open>retrieve\<close> request.
\<close>

definition fetch_all_layouts ::
  "lib \<Rightarrow> pystr \<Rightarrow> pystr \<Rightarrow> pystr \<Rightarrow> pystr list \<Rightarrow> world \<Rightarrow>
     (py_exn + (pystr \<rightharpoonup> pystr)) \<times> world" where
  "fetch_all_layouts L instance_url token api_version layout_names w =
     (let meta_url = instance_url @ str ''/services/Soap/m/'' @ api_version
      in case build_retrieve_envelope L token api_version layout_names of
           Inl e \<Rightarrow> (Inl e, w)
         | Inr body \<Rightarrow>
             (case soap_post L meta_url body (str ''retrieve'') w of
                (Inl e, w') \<Rightarrow> (Inl e, w')
              | (Inr root, w') \<Rightarrow>
                  (case find_el root (str ''id'') of
                     None \<Rightarrow>
                       (Inl (Exn RuntimeError
                          (str ''No retrieve ID returned from '' @ instance_url @
                           str ''. Check org credentials and API version.'')), w')
                   | Some id_el \<Rightarrow>
                       poll L instance_url token api_version meta_url (el_text id_el)
                         (clock w' + 120000) w')))"

subsection \<open>Report rows\<close>

definition CSV_COLUMNS :: "column list" where
  "CSV_COLUMNS =
     [Source_Layout_Name, Target_Layout_Name, Status,
      Fields_Missing_in_Target, Fields_Extra_in_Target, Fields_Missing_Count, Fields_Extra_Count,
      Sections_Missing_in_Target, Sections_Extra_in_Target,
      Sections_Missing_Count, Sections_Extra_Count,
      Related_Lists_Missing_in_Target, Related_Lists_Extra_in_Target,
      Related_Lists_Missing_Count, Related_Lists_Extra_Count,
      Source_Field_Count, Target_Field_Count, Source_Section_Count, Target_Section_Count,
      Source_Related_List_Count, Target_Related_List_Count]"

text \<open>\<^verbatim>\<open>_cell\<close>.\<close>

definition cell :: "pystr list \<Rightarrow> pystr" where
  "cell lst = (if lst \<noteq> [] then join (str ''; '') lst else [])"

definition blank_row :: "pystr \<Rightarrow> pystr \<Rightarrow> pystr \<Rightarrow> csv_row" where
  "blank_row source_name target_name status =
     (\<lambda>col. StrCell [])
       (Source_Layout_Name := StrCell source_name,
        Target_Layout_Name := StrCell target_name,
        Status := StrCell status)"

text \<open>
  One entry of \<^verbatim>\<open>summary\<close>: the keys \<^verbatim>\<open>layout\<close> and \<^verbatim>\<open>status\<close>, \<^verbatim>\<open>error\<close> for a parse
  error, and the six counts for a compared layout.
\<close>

record summary_entry =
  s_layout :: pystr
  s_status :: pystr
  s_error :: "pystr option"
  s_counts :: "(nat \<times> nat \<times> nat \<times> nat \<times> nat \<times> nat) option"

text \<open>Lines 505-523: the row of a compared layout.\<close>

definition compared_row :: "pystr \<Rightarrow> diff \<Rightarrow> csv_row" where
  "compared_row name d =
     (blank_row name name (str ''Compared''))
       (Fields_Missing_in_Target := StrCell (cell (fields_missing_in_target d)),
        Fields_Extra_in_Target := StrCell (cell (fields_extra_in_target d)),
        Fields_Missing_Count := IntCell (length (fields_missing_in_target d)),
        Fields_Extra_Count := IntCell (length (fields_extra_in_target d)),
        Sections_Missing_in_Target := StrCell (cell (sections_missing_in_target d)),
        Sections_Extra_in_Target := StrCell (cell (sections_extra_in_target d)),
        Sections_Missing_Count := IntCell (length (sections_missing_in_target d)),
        Sections_Extra_Count := IntCell (length (sections_extra_in_target d)),
        Related_Lists_Missing_in_Target := StrCell (cell (related_lists_missing_in_target d)),
        Related_Lists_Extra_in_Target := StrCell (cell (related_lists_extra_in_target d)),
        Related_Lists_Missing_Count := IntCell (length (related_lists_missing_in_target d)),
        Related_Lists_Extra_Count := IntCell (length (related_lists_extra_in_target d)),
        Source_Field_Count := IntCell (source_field_count d),
        Target_Field_Count := IntCell (target_field_count d),
        Source_Section_Count := IntCell (source_section_count d),
        Target_Section_Count := IntCell (target_section_count d),
        Source_Related_List_Count := IntCell (source_related_list_count d),
        Target_Related_List_Count := IntCell (target_related_list_count d))"

text \<open>Lines 495-497: both payloads parsed, the source first; the first failure is raised.\<close>

definition parse_both :: "lib \<Rightarrow> pystr \<Rightarrow> pystr \<Rightarrow> py_exn + layout \<times> layout" where
  "parse_both L src_xml tgt_xml =
     (case parse_layout L src_xml of
        Inl e \<Rightarrow> Inl e
      | Inr src_data \<Rightarrow>
          (case parse_layout L tgt_xml of
             Inl e \<Rightarrow> Inl e
           | Inr tgt_data \<Rightarrow> Inr (src_data, tgt_data)))"

text \<open>
  The loop over the requested names (lines 474-535); each \<^verbatim>\<open>continue\<close> is the recursive
  call on the remaining names.
\<close>

fun names_loop ::
  "lib \<Rightarrow> pystr list \<Rightarrow> (pystr \<rightharpoonup> pystr) \<Rightarrow> (pystr \<rightharpoonup> pystr) \<Rightarrow>
     csv_row list \<times> summary_entry list \<Rightarrow> csv_row list \<times> summary_entry list"
where
  "names_loop L [] src_layouts tgt_layouts st = st"
| "names_loop L (name # names) src_layouts tgt_layouts (csv_rows, summary) =
     (case (src_layouts name, tgt_layouts name) of
        (None, None) \<Rightarrow>
          names_loop L names src_layouts tgt_layouts
            (csv_rows @ [blank_row name name (str ''Not Found in Either Org'')],
             summary @ [\<lparr>s_layout = name, s_status = str ''not_found_both'',
                         s_error = None, s_counts = None\<rparr>])
      | (None, Some tgt_xml) \<Rightarrow>
          names_loop L names src_layouts tgt_layouts
            (csv_rows @ [blank_row name name (str ''Source Not Found'')],
             summary @ [\<lparr>s_layout = name, s_status = str ''source_not_found'',
                         s_error = None, s_counts = None\<rparr>])
      | (Some src_xml, None) \<Rightarrow>
          names_loop L names src_layouts tgt_layouts
            (csv_rows @ [blank_row name name (str ''Target Not Found'')],
             summary @ [\<lparr>s_layout = name, s_status = str ''target_not_found'',
                         s_error = None, s_counts = None\<rparr>])
      | (Some src_xml, Some tgt_xml) \<Rightarrow>
          (case parse_both L src_xml tgt_xml of
             Inl parse_err \<Rightarrow>
               names_loop L names src_layouts tgt_layouts
                 (csv_rows @ [blank_row name name (str ''Parse Error: '' @ exn_str parse_err)],
                  summary @ [\<lparr>s_layout = name, s_status = str ''parse_error'',
                              s_error = Some (exn_str parse_err), s_counts = None\<rparr>])
           | Inr (src_data, tgt_data) \<Rightarrow>
               (let d = compare src_data tgt_data
                in names_loop L names src_layouts tgt_layouts
                     (csv_rows @ [compared_row name d],
                      summary @ [\<lparr>s_layout = name, s_status = str ''compared'',
                                  s_error = None,
                                  s_counts = Some (length (fields_missing_in_target d),
                                                   length (fields_extra_in_target d),
                                                   length (sections_missing_in_target d),
                                                   length (sections_extra_in_target d),
                                                   length (related_lists_missing_in_target d),
                                                   length (related_lists_extra_in_target d))\<rparr>]))))"

subsection \<open>The tool\<close>

text \<open>
  \<^verbatim>\<open>format_error_response(e, context=c)\<close> and \<^verbatim>\<open>format_success_response(d)\<close> are functions
  outside the repository's files: the response is what they are given.
\<close>

record success =
  message :: pystr
  csv_file :: pystr
  total_layouts :: nat
  compared :: nat
  not_found :: nat
  errors :: nat
  same_org :: bool
  source_org :: pystr
  target_org :: pystr
  api_version :: pystr
  summary :: "summary_entry list"

datatype response = ErrorResponse py_exn pystr | SuccessResponse success

text \<open>Line 436: the requested names (\<open>44\<close> is the comma).\<close>

definition parse_names :: "pystr \<Rightarrow> pystr list" where
  "parse_names layout_names = map strip (filter (\<lambda>n. strip n \<noteq> []) (py_split 44 layout_names))"

text \<open>Lines 542-553: the path of the report.\<close>

definition csv_path_of :: "lib \<Rightarrow> world \<Rightarrow> pystr \<Rightarrow> pystr option \<Rightarrow> pystr" where
  "csv_path_of L w docs_dir output_filename =
     (let filename =
            (case output_filename of
               None \<Rightarrow> str ''page_layout_comparison_'' @ now_stamp w @ str ''.csv''
             | Some f \<Rightarrow>
                 if f = [] then str ''page_layout_comparison_'' @ now_stamp w @ str ''.csv''
                 else if \<not> endswith (lower L f) (str ''.csv'') then f @ str ''.csv''
                 else f)
      in if path_dirname L filename \<noteq> [] then path_abspath L filename
         else path_join L docs_dir filename)"

text \<open>
  Step 5 (lines 537-572): the directory, the file, the response. An exception of
  \<^verbatim>\<open>os.makedirs\<close> or of \<^verbatim>\<open>open\<close> reaches the outer handler (lines 574-576).
\<close>

definition write_report ::
  "lib \<Rightarrow> pystr list \<Rightarrow> pystr option \<Rightarrow> bool \<Rightarrow> pystr \<Rightarrow> pystr \<Rightarrow> pystr \<Rightarrow>
     csv_row list \<times> summary_entry list \<Rightarrow> world \<Rightarrow> response \<times> world" where
  "write_report L names output_filename same src_url tgt_url api_ver st w =
     (let docs_dir = path_join L (cwd w) (str ''Documents'')
      in case fs_fault w docs_dir of
           Some e \<Rightarrow> (ErrorResponse e (str ''compare_page_layouts''), w)
         | None \<Rightarrow>
             (let w1 = w\<lparr>made_dirs := made_dirs w @ [docs_dir]\<rparr>;
                  csv_path = csv_path_of L w1 docs_dir output_filename
              in case fs_fault w1 csv_path of
                   Some e \<Rightarrow> (ErrorResponse e (str ''compare_page_layouts''), w1)
                 | None \<Rightarrow>
                     (SuccessResponse
                        \<lparr>message = str ''Compared '' @ decimal (length names) @
                                    str '' layout(s). CSV report saved.'',
                         csv_file = csv_path,
                         total_layouts = length names,
                         compared = length (filter (\<lambda>s. s_status s = str ''compared'') (snd st)),
                         not_found =
                           length (filter (\<lambda>s. contains (str ''not_found'') (s_status s)) (snd st)),
                         errors = length (filter (\<lambda>s. s_status s = str ''parse_error'') (snd st)),
                         same_org = same,
                         source_org = src_url,
                         target_org = tgt_url,
                         api_version = api_ver,
                         summary = snd st\<rparr>,
                      w1\<lparr>files := (files w1)(csv_path \<mapsto> fst st)\<rparr>)))"

text \<open>\<^verbatim>\<open>compare_page_layouts\<close>.\<close>

definition compare_page_layouts ::
  "lib \<Rightarrow> pystr \<Rightarrow> pystr option \<Rightarrow> pystr option \<Rightarrow> pystr option \<Rightarrow> world \<Rightarrow> response \<times> world"
where
  "compare_page_layouts L layout_names source_org_user_id target_org_user_id output_filename w =
     (let names = parse_names layout_names
      in if names = []
         then (ErrorResponse (Exn ValueError (str ''layout_names must not be empty.''))
                 (str ''compare_page_layouts''), w)
         else
           (case get_org_credentials w source_org_user_id of
              Inl e \<Rightarrow> (ErrorResponse e (str ''compare_page_layouts (source org)''), w)
            | Inr (src_url, src_token, api_ver) \<Rightarrow>
                (case get_org_credentials w target_org_user_id of
                   Inl e \<Rightarrow> (ErrorResponse e (str ''compare_page_layouts (target org)''), w)
                 | Inr (tgt_url, tgt_token, _) \<Rightarrow>
                     (let same = (src_url = tgt_url \<and> src_token = tgt_token)
                      in case fetch_all_layouts L src_url src_token api_ver names w of
                           (Inl e, w1) \<Rightarrow>
                             (ErrorResponse e
                                (str ''compare_page_layouts (fetch source layouts)''), w1)
                         | (Inr src_layouts, w1) \<Rightarrow>
                             if same
                             then write_report L names output_filename same src_url tgt_url api_ver
                                    (names_loop L names src_layouts src_layouts ([], [])) w1
                             else
                               (case fetch_all_layouts L tgt_url tgt_token api_ver names w1 of
                                  (Inl e, w2) \<Rightarrow>
                                    (ErrorResponse e
                                       (str ''compare_page_layouts (fetch target layouts)''), w2)
                                | (Inr tgt_layouts, w2) \<Rightarrow>
                                    write_report L names output_filename same src_url tgt_url
                                      api_ver
                                      (names_loop L names src_layouts tgt_layouts ([], [])) w2)))))"

section \<open>Notions used in the statements\<close>

text \<open>
  The items of a section in document order (columns, then items), the names a list of
  items contributes, and the field sequence computed for one section element: the value
  of \<^verbatim>\<open>section_fields\<close> at line 254.
\<close>

definition section_items :: "element \<Rightarrow> element list" where
  "section_items section =
     concat (map (\<lambda>col. findall col (str ''layoutItems'')) (findall section (str ''layoutColumns'')))"

definition field_names :: "element list \<Rightarrow> pystr list" where
  "field_names items = List.map_filter (\<lambda>item. bound_name item (str ''field'')) items"

definition section_fields_of :: "element \<Rightarrow> pystr list" where
  "section_fields_of section = field_names (section_items section)"

text \<open>
  A spacer, in the words of the specification: a layout item without a field reference,
  or whose field reference is empty or whitespace only. \<open>field_ref\<close> is the stripped
  reference of an item that has one.
\<close>

definition spacer :: "element \<Rightarrow> bool" where
  "spacer item \<longleftrightarrow>
     (case find_child item (str ''field'') of
        None \<Rightarrow> True
      | Some f_el \<Rightarrow> (case el_text f_el of None \<Rightarrow> True | Some t \<Rightarrow> list_all py_isspace t))"

definition field_ref :: "element \<Rightarrow> pystr" where
  "field_ref item = strip (the (el_text (the (find_child item (str ''field'')))))"

text \<open>
  The distinct elements of a list in the order of their first occurrence: the order of
  the keys of a Python dict filled from the list.
\<close>

fun first_occurrences :: "'a list \<Rightarrow> 'a list" where
  "first_occurrences [] = []"
| "first_occurrences (x # xs) = x # removeAll x (first_occurrences xs)"

text \<open>
  The row the loop writes when one name alone is requested, and the number of
  \<^verbatim>\<open>retrieve\<close> requests in the log: a call of \<^verbatim>\<open>_fetch_all_layouts\<close> posts one, unless
  its envelope cannot be encoded.
\<close>

definition row_for :: "lib \<Rightarrow> (pystr \<rightharpoonup> pystr) \<Rightarrow> (pystr \<rightharpoonup> pystr) \<Rightarrow> pystr \<Rightarrow> csv_row" where
  "row_for L src_layouts tgt_layouts name =
     last (fst (names_loop L [name] src_layouts tgt_layouts ([], [])))"

definition retrieve_count :: "world \<Rightarrow> nat" where
  "retrieve_count w = length (filter (\<lambda>r. req_action r = str ''retrieve'') (posts w))"

section \<open>Concrete inputs\<close>

text \<open>
  A small stand-in for the libraries, used only to run the program on concrete inputs:
  the UTF-8 encoder, the decoder and \<^verbatim>\<open>lower\<close> on ASCII, a parser and an unzipper defined on
  a handful of byte strings (each document is abbreviated to one word), paths joined
  with \<^verbatim>\<open>/\<close>.
  Organization A answers every status request with a finished job whose archive holds
  the layout \<^verbatim>\<open>Account-Main\<close> and a malformed \<^verbatim>\<open>Contact-Main\<close>; organization B never finishes.
\<close>

definition ascii :: "string \<Rightarrow> bytes" where
  "ascii s = map of_char s"

definition m_el :: "string \<Rightarrow> pystr option \<Rightarrow> element list \<Rightarrow> element" where
  "m_el name t cs = Element METADATA_NS (str name) t cs"

definition field_item :: "string \<Rightarrow> element" where
  "field_item name = m_el ''layoutItems'' None [m_el ''field'' (Some (str name)) []]"

definition section_el :: "string \<Rightarrow> element list \<Rightarrow> element" where
  "section_el label items =
     m_el ''layoutSections'' None
       [m_el ''label'' (Some (str label)) [], m_el ''layoutColumns'' None items]"

definition account_root :: element where
  "account_root = m_el ''Layout'' None
     [section_el ''Info'' [field_item ''Phone'', field_item ''Name'', field_item ''Fax''],
      m_el ''relatedLists'' None [m_el ''relatedList'' (Some (str ''Cases'')) []]]"

definition trimmed_root :: element where
  "trimmed_root = m_el ''Layout'' None [section_el ''Info'' [field_item ''Name'', field_item ''Id'']]"

definition submitted_root :: element where
  "submitted_root = Element [] (str ''Envelope'') None
     [m_el ''retrieveResponse'' None [m_el ''result'' None
        [m_el ''done'' (Some (str ''false'')) [], m_el ''id'' (Some (str ''09S1'')) []]]]"

definition pending_root :: element where
  "pending_root = Element [] (str ''Envelope'') None
     [m_el ''checkRetrieveStatusResponse'' None [m_el ''result'' None
        [m_el ''done'' (Some (str ''false'')) [], m_el ''id'' (Some (str ''09S1'')) []]]]"

definition done_root :: element where
  "done_root = Element [] (str ''Envelope'') None
     [m_el ''checkRetrieveStatusResponse'' None [m_el ''result'' None
        [m_el ''done'' (Some (str ''true'')) [], m_el ''status'' (Some (str ''Succeeded'')) [],
         m_el ''zipFile'' (Some (str ''zip'')) []]]]"

definition demo_fromstring :: "bytes \<Rightarrow> py_exn + element" where
  "demo_fromstring b =
     (if b = ascii ''submitted'' then Inr submitted_root
      else if b = ascii ''pending'' then Inr pending_root
      else if b = ascii ''done'' then Inr done_root
      else if b = ascii ''account'' then Inr account_root
      else if b = ascii ''trimmed'' then Inr trimmed_root
      else Inl (Exn XMLSyntaxError (str ''syntax error'')))"

definition demo_zip :: zipfile where
  "demo_zip =
     \<lparr>namelist = [str ''unpackaged/package.xml'', str ''unpackaged/layouts/Account-Main.layout'',
                  str ''unpackaged/layouts/Contact-Main.layout''],
      read = (\<lambda>entry. if entry = str ''unpackaged/layouts/Account-Main.layout''
                       then Inr (ascii ''account'') else Inr (ascii ''<Layout''))\<rparr>"

definition bad_zip :: zipfile where
  "bad_zip =
     \<lparr>namelist = [str ''unpackaged/layouts/Account-Main.layout'',
                  str ''unpackaged/layouts/Contact-Main.layout''],
      read = (\<lambda>entry. if entry = str ''unpackaged/layouts/Account-Main.layout''
                       then Inr [255] else Inr (ascii ''account''))\<rparr>"

definition utf8_bytes :: "nat \<Rightarrow> bytes" where
  "utf8_bytes c =
     (if c < 128 then [of_nat c]
      else if c < 2048 then [of_nat (192 + c div 64), of_nat (128 + c mod 64)]
      else if c < 65536
      then [of_nat (224 + c div 4096), of_nat (128 + c div 64 mod 64), of_nat (128 + c mod 64)]
      else [of_nat (240 + c div 262144), of_nat (128 + c div 4096 mod 64),
            of_nat (128 + c div 64 mod 64), of_nat (128 + c mod 64)])"

definition demo_encode :: "pystr \<Rightarrow> py_exn + bytes" where
  "demo_encode s =
     (if list_all (\<lambda>c. c < 55296 \<or> 57343 < c \<and> c < 1114112) s
      then Inr (concat (map utf8_bytes s))
      else Inl (Exn UnicodeEncodeError (str ''surrogates not allowed'')))"

definition demo_lib :: lib where
  "demo_lib =
     \<lparr>fromstring = demo_fromstring,
      utf8_encode = demo_encode,
      utf8_decode = (\<lambda>b. if list_all (\<lambda>x. x < 128) b then Inr (map unat b)
                          else Inl (Exn UnicodeDecodeError (str ''invalid start byte''))),
      lower = map (\<lambda>c. if 65 \<le> c \<and> c \<le> 90 then c + 32 else c),
      b64decode = (\<lambda>t. Inr (map of_nat t)),
      open_zip = (\<lambda>b. if b = ascii ''zip'' then Inr demo_zip
                       else if b = ascii ''bad'' then Inr bad_zip
                       else Inl (Exn (LibraryError (str ''BadZipFile'')) (str ''File is not a zip file''))),
      path_join = (\<lambda>a b. a @ [47] @ b),
      path_dirname = (\<lambda>p. if 47 \<in> set p then rev (tl (dropWhile (\<lambda>c. c \<noteq> 47) (rev p))) else []),
      path_abspath = (\<lambda>p. p)\<rparr>"

definition demo_http :: "request list \<Rightarrow> nat \<times> (py_exn + http_response)" where
  "demo_http log =
     (1000,
      Inr \<lparr>status_code = 200, resp_text = [],
           resp_content =
             (if req_action (last log) = str ''retrieve'' then ascii ''submitted''
              else if req_url (last log) = str ''https://a.example.com/services/Soap/m/59.0''
              then ascii ''done'' else ascii ''pending'')\<rparr>)"

definition demo_world :: world where
  "demo_world =
     \<lparr>clock = 0, http = demo_http, posts = [], files = Map.empty, made_dirs = [],
      fs_fault = (\<lambda>p. None), cwd = str ''/srv'', now_stamp = str ''20260101_120000'',
      config_api_version = Inr (str ''59.0''),
      default_connection = Inr (str ''a.example.com'', str ''tokenA''),
      stored_tokens = Inr [str ''005B'' \<mapsto> (str ''https://b.example.com'', str ''tokenB'')]\<rparr>"

definition demo_layouts :: "pystr \<rightharpoonup> pystr" where
  "demo_layouts = [str ''Account-Main'' \<mapsto> str ''account'', str ''Contact-Main'' \<mapsto> str ''<Layout'']"

definition demo_names :: "pystr list" where
  "demo_names = [str ''Case-Main'', str ''Account-Main'', str ''Contact-Main'']"

definition demo_input :: pystr where
  "demo_input = str ''Case-Main, Account-Main,,Contact-Main ''"

definition org_a_requests :: "request list" where
  "org_a_requests =
     [\<lparr>req_url = str ''https://a.example.com/services/Soap/m/59.0'',
       req_body = concat (map utf8_bytes
                    (retrieve_envelope_text (str ''tokenA'') (str ''59.0'') demo_names)),
       req_action = str ''retrieve''\<rparr>,
      \<lparr>req_url = str ''https://a.example.com/services/Soap/m/59.0'',
       req_body = concat (map utf8_bytes
                    (status_envelope_text (str ''tokenA'') (str ''59.0'') (Some (str ''09S1'')))),
       req_action = str ''checkRetrieveStatus''\<rparr>]"

text \<open>
  Organization A when it is slow: the answer to a status request takes 125 seconds.
\<close>

definition late_http :: "request list \<Rightarrow> nat \<times> (py_exn + http_response)" where
  "late_http log =
     (if req_action (last log) = str ''retrieve'' then 1000 else 125000,
      Inr \<lparr>status_code = 200, resp_text = [],
           resp_content =
             (if req_action (last log) = str ''retrieve'' then ascii ''submitted''
              else ascii ''done'')\<rparr>)"

definition late_world :: world where
  "late_world = demo_world\<lparr>http := late_http\<rparr>"

text \<open>
  Layouts with two sections of the same label, with two sections of different labels,
  with spacer items, and with a section whose label is blank.
\<close>

definition dup_root :: element where
  "dup_root = m_el ''Layout'' None
     [section_el ''Info'' [field_item ''Name''], section_el ''Info'' [field_item ''Phone'']]"

definition two_sections_root :: element where
  "two_sections_root = m_el ''Layout'' None
     [section_el ''Info'' [field_item ''Name''], section_el ''Address'' [field_item ''City'']]"

definition spacer_root :: element where
  "spacer_root = m_el ''Layout'' None
     [section_el ''Info''
        [field_item ''Name'',
         m_el ''layoutItems'' None [m_el ''emptySpace'' (Some (str ''true'')) []],
         field_item ''  '']]"

definition blank_section :: element where
  "blank_section =
     m_el ''layoutSections'' None
       [m_el ''label'' (Some (str '' '')) [], m_el ''layoutColumns'' None [field_item ''Name'']]"

definition blank_label_root :: element where
  "blank_label_root = m_el ''Layout'' None [blank_section]"

section \<open>The parser\<close>

lemmas demo_tree_defs =
  m_el_def field_item_def section_el_def findall_def find_child_def section_label_def
  bound_name_def strip_def py_isspace_def str_def

lemma strip_empty_iff: "strip t = [] \<longleftrightarrow> (\<forall>c\<in>set t. py_isspace c)"
proof -
  have "(\<forall>x\<in>set (dropWhile py_isspace t). py_isspace x) \<longleftrightarrow> dropWhile py_isspace t = []"
  proof
    assume all: "\<forall>x\<in>set (dropWhile py_isspace t). py_isspace x"
    show "dropWhile py_isspace t = []"
    proof (rule ccontr)
      assume ne: "dropWhile py_isspace t \<noteq> []"
      then have "\<not> py_isspace (hd (dropWhile py_isspace t))"
        by (rule hd_dropWhile)
      moreover have "hd (dropWhile py_isspace t) \<in> set (dropWhile py_isspace t)"
        using ne by simp
      ultimately show False
        using all by blast
    qed
  next
    assume "dropWhile py_isspace t = []"
    then show "\<forall>x\<in>set (dropWhile py_isspace t). py_isspace x"
      by (auto dest: set_dropWhileD)
  qed
  then show ?thesis
    by (simp add: strip_def dropWhile_eq_Nil_conv)
qed

lemma field_names_simps:
  "field_names [] = []"
  "field_names (i # is) = (case bound_name i (str ''field'') of None \<Rightarrow> field_names is | Some n \<Rightarrow> n # field_names is)"
  by (simp_all add: field_names_def List.map_filter_simps split: option.splits)

lemma field_names_append: "field_names (xs @ ys) = field_names xs @ field_names ys"
  by (induction xs) (simp_all add: field_names_simps split: option.splits)

lemma items_loop_eq:
  "items_loop items (sf, fl) = (sf @ field_names items, fl \<union> set (field_names items))"
  by (induction items arbitrary: sf fl) (auto simp: field_names_simps split: option.splits)

lemma columns_loop_eq:
  "columns_loop cols (sf, fl) =
     (sf @ field_names (concat (map (\<lambda>col. findall col (str ''layoutItems'')) cols)),
      fl \<union> set (field_names (concat (map (\<lambda>col. findall col (str ''layoutItems'')) cols))))"
  by (induction cols arbitrary: sf fl) (auto simp: items_loop_eq field_names_append field_names_simps)

lemma sections_loop_eq:
  "sections_loop secs (al, fl) =
     (fold (\<lambda>s. AList.update (section_label s) (field_names (section_items s))) secs al,
      fl \<union> (\<Union>s\<in>set secs. set (field_names (section_items s))))"
  by (induction secs arbitrary: al fl) (auto simp: columns_loop_eq section_items_def)

lemma layout_of_root_eq:
  "layout_of_root root =
     \<lparr>sections = fold (\<lambda>s. AList.update (section_label s) (section_fields_of s))
                   (findall root (str ''layoutSections'')) [],
      all_fields = (\<Union>s\<in>set (findall root (str ''layoutSections'')). set (section_fields_of s)),
      related_lists = related_loop (findall root (str ''relatedLists'')) {}\<rparr>"
  by (simp add: layout_of_root_def sections_loop_eq section_fields_of_def)

lemma bound_name_field: "bound_name item (str ''field'') = (if spacer item then None else Some (field_ref item))"
  by (auto simp: bound_name_def spacer_def field_ref_def strip_empty_iff list_all_iff split: option.splits)

lemma field_names_filter: "field_names items = map field_ref (filter (\<lambda>i. \<not> spacer i) items)"
  by (induction items) (simp_all add: field_names_simps bound_name_field)

lemma related_loop_finite: "finite rels \<Longrightarrow> finite (related_loop rls rels)"
  by (induction rls arbitrary: rels) (auto split: option.splits)

lemma set_first_occurrences: "set (first_occurrences xs) = set xs"
  by (induction xs) auto

lemma fold_update_keys:
  "map fst (fold (\<lambda>s. AList.update (k s) (v s)) xs al) =
     map fst al @ filter (\<lambda>x. x \<notin> fst ` set al) (first_occurrences (map k xs))"
proof (induction xs arbitrary: al)
  case Nil
  then show ?case by simp
next
  case (Cons x xs)
  let ?K = "fst ` set al" and ?fo = "first_occurrences (map k xs)"
  have rm: "filter P (removeAll (k x) l) = filter (\<lambda>y. y \<noteq> k x \<and> P y) l" for P l
    by (induction l) auto
  show ?case
  proof (cases "k x \<in> ?K")
    case True
    have "filter (\<lambda>y. y \<noteq> k x \<and> y \<notin> ?K) ?fo = filter (\<lambda>y. y \<notin> ?K) ?fo"
      by (rule filter_cong) (use True in auto)
    with True show ?thesis
      by (simp add: Cons.IH update_keys dom_update rm insert_absorb)
  next
    case False
    then show ?thesis
      by (simp add: Cons.IH update_keys dom_update rm)
  qed
qed

lemma fold_update_lookup:
  "map_of (fold (\<lambda>s. AList.update (k s) (v s)) xs al) l =
     (case filter (\<lambda>s. k s = l) xs of [] \<Rightarrow> map_of al l | y # ys \<Rightarrow> Some (v (last (y # ys))))"
proof (induction xs rule: rev_induct)
  case Nil
  then show ?case by simp
next
  case (snoc x xs)
  then show ?case
    by (auto simp: update_conv' split: list.splits)
qed

lemma update_fresh: "k \<notin> fst ` set al \<Longrightarrow> AList.update k v al = al @ [(k, v)]"
  by (induction al) auto

lemma fold_update_distinct:
  "distinct (map k xs) \<Longrightarrow> k ` set xs \<inter> fst ` set al = {} \<Longrightarrow>
     fold (\<lambda>s. AList.update (k s) (v s)) xs al = al @ map (\<lambda>s. (k s, v s)) xs"
  by (induction xs arbitrary: al) (auto simp: update_fresh)

lemma fold_update_values:
  "(l, fs) \<in> set (fold (\<lambda>s. AList.update (k s) (v s)) xs al) \<Longrightarrow>
     (l, fs) \<in> set al \<or> (\<exists>s\<in>set xs. l = k s \<and> fs = v s)"
proof (induction xs arbitrary: al)
  case Nil
  then show ?case by simp
next
  case (Cons x xs)
  have "(l, fs) \<in> set (AList.update (k x) (v x) al) \<Longrightarrow> (l, fs) \<in> set al \<or> (l = k x \<and> fs = v x)"
    by (induction al) (auto split: if_splits)
  with Cons.IH [of "AList.update (k x) (v x) al"] Cons.prems show ?case
    by auto
qed

lemma finite_all_fields: "finite (all_fields (layout_of_root root))"
  by (simp add: layout_of_root_eq)

lemma finite_related_lists: "finite (related_lists (layout_of_root root))"
  by (simp add: layout_of_root_eq related_loop_finite)

lemma dup_root_layout:
  "sections (layout_of_root dup_root) = [(str ''Info'', [str ''Phone''])]"
  "all_fields (layout_of_root dup_root) = {str ''Name'', str ''Phone''}"
  by (simp_all add: layout_of_root_def dup_root_def demo_tree_defs insert_commute)

lemma two_sections_labels:
  "findall two_sections_root (str ''layoutSections'') =
     [section_el ''Info'' [field_item ''Name''], section_el ''Address'' [field_item ''City'']]"
  "section_label (section_el ''Info'' [field_item ''Name'']) = str ''Info''"
  "section_label (section_el ''Address'' [field_item ''City'']) = str ''Address''"
  "str ''Info'' \<noteq> str ''Address''"
  by (simp_all add: two_sections_root_def demo_tree_defs)

lemma spacer_root_sections:
  "sections (layout_of_root spacer_root) = [(str ''Info'', [str ''Name''])]"
  by (simp add: layout_of_root_def spacer_root_def demo_tree_defs)

lemma blank_section_facts:
  "blank_section \<in> set (findall blank_label_root (str ''layoutSections''))"
  "find_child blank_section (str ''label'') = Some (m_el ''label'' (Some (str '' '')) [])"
  "list_all py_isspace (str '' '')"
  by (simp_all add: blank_label_root_def blank_section_def demo_tree_defs)

subsection \<open>The invariant of the model\<close>

text \<open>
  Claim C2, as the code has it. \<open>all_fields\<close> is the union of the field sequences
  computed for all section elements of the document. The field lists kept in \<open>sections\<close>
  lie within \<open>all_fields\<close>, and they make up all of it when the section labels are
  pairwise distinct.
\<close>

theorem all_fields_union_of_sections:
  "all_fields (layout_of_root root) =
     (\<Union>sec\<in>set (findall root (str ''layoutSections'')). set (section_fields_of sec)) \<and>
   (\<Union>(label, fs)\<in>set (sections (layout_of_root root)). set fs) \<subseteq> all_fields (layout_of_root root) \<and>
   (distinct (map section_label (findall root (str ''layoutSections''))) \<longrightarrow>
      all_fields (layout_of_root root) = (\<Union>(label, fs)\<in>set (sections (layout_of_root root)). set fs))"
proof -
  let ?secs = "findall root (str ''layoutSections'')"
  have sub: "(\<Union>(label, fs)\<in>set (sections (layout_of_root root)). set fs) \<subseteq> all_fields (layout_of_root root)"
    by (auto simp: layout_of_root_eq dest!: fold_update_values)
  have "all_fields (layout_of_root root) = (\<Union>(label, fs)\<in>set (sections (layout_of_root root)). set fs)"
    if "distinct (map section_label ?secs)"
    using that by (auto simp: layout_of_root_eq fold_update_distinct)
  with sub show ?thesis
    by (simp add: layout_of_root_eq)
qed

text \<open>
  Claim C2 as stated fails when two sections share a label: the second section's list
  replaces the first in \<open>sections\<close>, while \<open>all_fields\<close> keeps the fields of both. Here
  \<open>all_fields\<close> is \<open>{Name, Phone}\<close> and the only list in \<open>sections\<close> is \<open>[Phone]\<close>.
\<close>

theorem all_fields_exceeds_sections_counterexample:
  "all_fields (layout_of_root dup_root) \<noteq>
     (\<Union>(label, fs)\<in>set (sections (layout_of_root dup_root)). set fs)"
  by (simp add: dup_root_layout) (simp add: str_def)

theorem all_fields_union_of_sections_witness:
  "distinct (map section_label (findall two_sections_root (str ''layoutSections''))) \<and>
   all_fields (layout_of_root two_sections_root) =
     (\<Union>(label, fs)\<in>set (sections (layout_of_root two_sections_root)). set fs)"
proof -
  have d: "distinct (map section_label (findall two_sections_root (str ''layoutSections'')))"
    by (simp add: two_sections_labels)
  with all_fields_union_of_sections [of two_sections_root] show ?thesis
    by blast
qed

subsection \<open>Sections with the same label\<close>

text \<open>
  Claim C3, as the code has it. \<open>sections\<close> has one entry per distinct section label, in
  the order in which the labels first appear in the document; the entry of a label holds
  the field sequence of the last section element with that label. When the labels are
  pairwise distinct, every section is an entry of its own, in document order.
\<close>

theorem sections_entry_per_label:
  "map fst (sections (layout_of_root root)) =
     first_occurrences (map section_label (findall root (str ''layoutSections''))) \<and>
   (\<forall>sec\<in>set (findall root (str ''layoutSections'')).
      map_of (sections (layout_of_root root)) (section_label sec) =
        Some (section_fields_of (last (filter (\<lambda>s. section_label s = section_label sec)
                                          (findall root (str ''layoutSections'')))))) \<and>
   (distinct (map section_label (findall root (str ''layoutSections''))) \<longrightarrow>
      sections (layout_of_root root) =
        map (\<lambda>s. (section_label s, section_fields_of s)) (findall root (str ''layoutSections'')))"
proof -
  let ?secs = "findall root (str ''layoutSections'')"
  have look: "map_of (sections (layout_of_root root)) (section_label sec) =
        Some (section_fields_of (last (filter (\<lambda>s. section_label s = section_label sec) ?secs)))"
    if "sec \<in> set ?secs" for sec
  proof -
    from that have "filter (\<lambda>s. section_label s = section_label sec) ?secs \<noteq> []"
      by (auto simp: filter_empty_conv)
    then show ?thesis
      by (auto simp: layout_of_root_eq fold_update_lookup split: list.splits)
  qed
  show ?thesis
    using look by (simp add: layout_of_root_eq fold_update_keys fold_update_distinct)
qed

text \<open>
  Claim C3 as stated fails: two sections labelled \<open>Info\<close>, the first with the field
  \<open>Name\<close> and the second with \<open>Phone\<close>, give the single entry \<open>(Info, [Phone])\<close>.
\<close>

theorem duplicate_label_overwritten_counterexample:
  "map section_label (findall dup_root (str ''layoutSections'')) = [str ''Info'', str ''Info''] \<and>
   sections (layout_of_root dup_root) = [(str ''Info'', [str ''Phone''])] \<and>
   sections (layout_of_root dup_root) \<noteq> [(str ''Info'', [str ''Name'']), (str ''Info'', [str ''Phone''])]"
  by (simp add: dup_root_layout) (simp add: dup_root_def demo_tree_defs)

theorem sections_entry_per_label_witness:
  "section_el ''Info'' [field_item ''Name''] \<in> set (findall two_sections_root (str ''layoutSections'')) \<and>
   map_of (sections (layout_of_root two_sections_root)) (str ''Info'') =
     Some (section_fields_of (section_el ''Info'' [field_item ''Name''])) \<and>
   distinct (map section_label (findall two_sections_root (str ''layoutSections''))) \<and>
   sections (layout_of_root two_sections_root) =
     [(str ''Info'', section_fields_of (section_el ''Info'' [field_item ''Name''])),
      (str ''Address'', section_fields_of (section_el ''Address'' [field_item ''City'']))]"
  using sections_entry_per_label [of two_sections_root]
  by (simp add: two_sections_labels)

subsection \<open>Spacers\<close>

text \<open>
  Claim C9. A spacer contributes to no field collection: \<open>all_fields\<close> is the set of the
  stripped references of the items that are not spacers, and every field sequence in
  \<open>sections\<close> is, for some section element with that label, the sequence of the stripped
  references of its items that are not spacers, in document order.
\<close>

theorem spacers_never_contribute:
  "all_fields (layout_of_root root) =
     (\<Union>sec\<in>set (findall root (str ''layoutSections'')).
        field_ref ` {item \<in> set (section_items sec). \<not> spacer item}) \<and>
   (\<forall>(label, fs)\<in>set (sections (layout_of_root root)).
      \<exists>sec\<in>set (findall root (str ''layoutSections'')).
        label = section_label sec \<and>
        fs = map field_ref (filter (\<lambda>item. \<not> spacer item) (section_items sec)))"
  by (auto simp: layout_of_root_eq section_fields_of_def field_names_filter dest!: fold_update_values)

theorem spacers_never_contribute_witness:
  "(str ''Info'', [str ''Name'']) \<in> set (sections (layout_of_root spacer_root)) \<and>
   (\<exists>sec\<in>set (findall spacer_root (str ''layoutSections'')).
      str ''Info'' = section_label sec \<and>
      [str ''Name''] = map field_ref (filter (\<lambda>item. \<not> spacer item) (section_items sec))) \<and>
   length (section_items (section_el ''Info''
        [field_item ''Name'',
         m_el ''layoutItems'' None [m_el ''emptySpace'' (Some (str ''true'')) []],
         field_item ''  ''])) = 3"
proof -
  have mem: "(str ''Info'', [str ''Name'']) \<in> set (sections (layout_of_root spacer_root))"
    by (simp add: spacer_root_sections)
  have "length (section_items (section_el ''Info''
        [field_item ''Name'',
         m_el ''layoutItems'' None [m_el ''emptySpace'' (Some (str ''true'')) []],
         field_item ''  ''])) = 3"
    by (simp add: section_items_def demo_tree_defs)
  with mem spacers_never_contribute [of spacer_root] show ?thesis
    by blast
qed

subsection \<open>Blank and missing labels\<close>

text \<open>
  Claim C10. The label of every section element is a key of \<open>sections\<close>. A section whose
  label element is present with no text, empty text or whitespace only gets the label
  \<open>""\<close>, which is not the sentinel. A section without a label element gets the sentinel
  \<open>Unnamed Section\<close>, and a section has that label only if its label element is absent or
  its label text itself strips to \<open>Unnamed Section\<close>.
\<close>

theorem blank_label_is_empty_string:
  assumes "sec \<in> set (findall root (str ''layoutSections''))"
  shows "section_label sec \<in> set (map fst (sections (layout_of_root root))) \<and>
    (\<forall>lbl_el. find_child sec (str ''label'') = Some lbl_el \<and>
        (el_text lbl_el = None \<or> (\<exists>t. el_text lbl_el = Some t \<and> list_all py_isspace t)) \<longrightarrow>
        section_label sec = [] \<and> section_label sec \<noteq> str ''Unnamed Section'') \<and>
    (find_child sec (str ''label'') = None \<longrightarrow> section_label sec = str ''Unnamed Section'') \<and>
    (section_label sec = str ''Unnamed Section'' \<longrightarrow>
        find_child sec (str ''label'') = None \<or>
        (\<exists>lbl_el t. find_child sec (str ''label'') = Some lbl_el \<and> el_text lbl_el = Some t \<and>
           strip t = str ''Unnamed Section''))"
proof -
  have key: "section_label sec \<in> set (map fst (sections (layout_of_root root)))"
    using assms by (simp add: layout_of_root_eq fold_update_keys set_first_occurrences)
  have sentinel: "str ''Unnamed Section'' \<noteq> []"
    by (simp add: str_def)
  have blank: "section_label sec = []"
    if "find_child sec (str ''label'') = Some lbl_el"
      and "el_text lbl_el = None \<or> (\<exists>t. el_text lbl_el = Some t \<and> list_all py_isspace t)"
    for lbl_el
    using that by (auto simp: section_label_def strip_empty_iff list_all_iff)
  have absent: "section_label sec = str ''Unnamed Section''"
    if "find_child sec (str ''label'') = None"
    using that by (simp add: section_label_def)
  have only: "find_child sec (str ''label'') = None \<or>
        (\<exists>lbl_el t. find_child sec (str ''label'') = Some lbl_el \<and> el_text lbl_el = Some t \<and>
           strip t = str ''Unnamed Section'')"
    if eq: "section_label sec = str ''Unnamed Section''"
  proof (cases "find_child sec (str ''label'')")
    case None
    then show ?thesis by simp
  next
    case (Some lbl_el)
    show ?thesis
    proof (cases "el_text lbl_el")
      case None
      with Some have "section_label sec = []"
        by (rule_tac blank) auto
      with eq sentinel show ?thesis by simp
    next
      case (Some t)
      with \<open>find_child sec (str ''label'') = Some lbl_el\<close> eq show ?thesis
        by (simp add: section_label_def)
    qed
  qed
  from key sentinel blank absent only show ?thesis
    by metis
qed

theorem blank_label_is_empty_string_witness:
  "blank_section \<in> set (findall blank_label_root (str ''layoutSections'')) \<and>
   find_child blank_section (str ''label'') = Some (m_el ''label'' (Some (str '' '')) []) \<and>
   list_all py_isspace (str '' '') \<and>
   section_label blank_section = [] \<and>
   [] \<in> set (map fst (sections (layout_of_root blank_label_root)))"
proof -
  have "el_text (m_el ''label'' (Some (str '' '')) []) = Some (str '' '')"
    by (simp add: m_el_def)
  with blank_label_is_empty_string [OF blank_section_facts(1)] blank_section_facts
  have "section_label blank_section = []"
    by blast
  with blank_label_is_empty_string [OF blank_section_facts(1)] blank_section_facts show ?thesis
    by metis
qed

section \<open>The comparison engine\<close>

lemma parse_layout_Inr:
  "parse_layout L xml_content = Inr m \<Longrightarrow> \<exists>root. m = layout_of_root root"
  by (auto simp: parse_layout_def split: sum.splits if_splits)

lemma compare_roots:
  "set (fields_missing_in_target (compare (layout_of_root r1) (layout_of_root r2))) =
     all_fields (layout_of_root r1) - all_fields (layout_of_root r2) \<and>
   set (fields_extra_in_target (compare (layout_of_root r1) (layout_of_root r2))) =
     all_fields (layout_of_root r2) - all_fields (layout_of_root r1) \<and>
   set (sections_missing_in_target (compare (layout_of_root r1) (layout_of_root r2))) =
     set (map fst (sections (layout_of_root r1))) - set (map fst (sections (layout_of_root r2))) \<and>
   set (sections_extra_in_target (compare (layout_of_root r1) (layout_of_root r2))) =
     set (map fst (sections (layout_of_root r2))) - set (map fst (sections (layout_of_root r1))) \<and>
   set (related_lists_missing_in_target (compare (layout_of_root r1) (layout_of_root r2))) =
     related_lists (layout_of_root r1) - related_lists (layout_of_root r2) \<and>
   set (related_lists_extra_in_target (compare (layout_of_root r1) (layout_of_root r2))) =
     related_lists (layout_of_root r2) - related_lists (layout_of_root r1) \<and>
   list_all (\<lambda>out. sorted out \<and> distinct out)
     [fields_missing_in_target (compare (layout_of_root r1) (layout_of_root r2)),
      fields_extra_in_target (compare (layout_of_root r1) (layout_of_root r2)),
      sections_missing_in_target (compare (layout_of_root r1) (layout_of_root r2)),
      sections_extra_in_target (compare (layout_of_root r1) (layout_of_root r2)),
      related_lists_missing_in_target (compare (layout_of_root r1) (layout_of_root r2)),
      related_lists_extra_in_target (compare (layout_of_root r1) (layout_of_root r2))]"
  using finite_all_fields [of r1] finite_all_fields [of r2]
    finite_related_lists [of r1] finite_related_lists [of r2]
  by (simp add: compare_def Let_def)

lemma demo_parse:
  "parse_layout demo_lib (str ''account'') = Inr (layout_of_root account_root)"
  "parse_layout demo_lib (str ''trimmed'') = Inr (layout_of_root trimmed_root)"
  "parse_layout demo_lib (str ''<Layout'') =
     Inl (Exn ValueError (str ''Could not parse layout XML: syntax error''))"
  by (simp_all add: parse_layout_def demo_lib_def demo_encode_def utf8_bytes_def
      demo_fromstring_def ascii_def str_def)

lemma demo_all_fields:
  "all_fields (layout_of_root account_root) = {str ''Phone'', str ''Name'', str ''Fax''}"
  "all_fields (layout_of_root trimmed_root) = {str ''Name'', str ''Id''}"
  by (simp_all add: layout_of_root_def account_root_def trimmed_root_def demo_tree_defs
      insert_commute)

text \<open>
  Claim C1. For every pair of parsed layout models, each of the six lists of the diff
  holds exactly the elements of its set difference: fields, section labels and related
  lists, missing in and extra in the target. Every list is ascending without repetition
  in the lexicographic order of code point sequences, so its order is fixed by its
  elements and not by insertion.
\<close>

theorem compare_exact_sorted:
  assumes "parse_layout L src_xml = Inr source" and "parse_layout L tgt_xml = Inr target"
  shows "set (fields_missing_in_target (compare source target)) =
      all_fields source - all_fields target \<and>
    set (fields_extra_in_target (compare source target)) =
      all_fields target - all_fields source \<and>
    set (sections_missing_in_target (compare source target)) =
      set (map fst (sections source)) - set (map fst (sections target)) \<and>
    set (sections_extra_in_target (compare source target)) =
      set (map fst (sections target)) - set (map fst (sections source)) \<and>
    set (related_lists_missing_in_target (compare source target)) =
      related_lists source - related_lists target \<and>
    set (related_lists_extra_in_target (compare source target)) =
      related_lists target - related_lists source \<and>
    list_all (\<lambda>out. sorted out \<and> distinct out)
      [fields_missing_in_target (compare source target),
       fields_extra_in_target (compare source target),
       sections_missing_in_target (compare source target),
       sections_extra_in_target (compare source target),
       related_lists_missing_in_target (compare source target),
       related_lists_extra_in_target (compare source target)]"
proof -
  from assms obtain r1 r2 where "source = layout_of_root r1" "target = layout_of_root r2"
    using parse_layout_Inr by blast
  then show ?thesis
    using compare_roots [of r1 r2] by simp
qed

text \<open>
  The source lists \<open>Phone\<close>, \<open>Name\<close>, \<open>Fax\<close> in that order and the target \<open>Name\<close>, \<open>Id\<close>: the
  missing fields are reported as \<open>Fax\<close>, \<open>Phone\<close>.
\<close>

theorem compare_exact_sorted_witness:
  "parse_layout demo_lib (str ''account'') = Inr (layout_of_root account_root) \<and>
   parse_layout demo_lib (str ''trimmed'') = Inr (layout_of_root trimmed_root) \<and>
   fields_missing_in_target (compare (layout_of_root account_root) (layout_of_root trimmed_root)) =
     [str ''Fax'', str ''Phone''] \<and>
   fields_extra_in_target (compare (layout_of_root account_root) (layout_of_root trimmed_root)) =
     [str ''Id'']"
proof -
  let ?d = "compare (layout_of_root account_root) (layout_of_root trimmed_root)"
  note main = compare_exact_sorted [OF demo_parse(1) demo_parse(2)]
  have missing: "set (fields_missing_in_target ?d) = set [str ''Fax'', str ''Phone'']"
    "set (fields_extra_in_target ?d) = set [str ''Id'']"
    using main by (auto simp: demo_all_fields str_def)
  have ordered: "sorted [str ''Fax'', str ''Phone'']" "distinct [str ''Fax'', str ''Phone'']"
    "sorted [str ''Id'']" "distinct [str ''Id'']"
    by (simp_all add: str_def)
  from main have "sorted (fields_missing_in_target ?d)" "distinct (fields_missing_in_target ?d)"
    "sorted (fields_extra_in_target ?d)" "distinct (fields_extra_in_target ?d)"
    by simp_all
  with missing ordered have "fields_missing_in_target ?d = [str ''Fax'', str ''Phone'']"
    "fields_extra_in_target ?d = [str ''Id'']"
    by (blast intro: sorted_distinct_set_unique)+
  with demo_parse(1,2) show ?thesis
    by simp
qed

lemma parse_both_same: "parse_layout L xml = Inr m \<Longrightarrow> parse_both L xml xml = Inr (m, m)"
  by (simp add: parse_both_def)

lemma compare_self:
  "compare m m =
     \<lparr>fields_missing_in_target = [], fields_extra_in_target = [],
      sections_missing_in_target = [], sections_extra_in_target = [],
      related_lists_missing_in_target = [], related_lists_extra_in_target = [],
      source_field_count = card (all_fields m), target_field_count = card (all_fields m),
      source_section_count = card (set (map fst (sections m))),
      target_section_count = card (set (map fst (sections m))),
      source_related_list_count = card (related_lists m),
      target_related_list_count = card (related_lists m)\<rparr>"
  by (simp add: compare_def Let_def)

section \<open>The archive extractor\<close>

lemma entries_loop_skip:
  assumes "\<forall>e\<in>set before. is_layout_entry L e \<longrightarrow>
             (\<exists>d x. read zf e = Inr d \<and> utf8_decode L d = Inr x)"
  shows "\<exists>result'. entries_loop L zf (before @ rest) result = entries_loop L zf rest result'"
  using assms
proof (induction before arbitrary: result)
  case Nil
  then show ?case by auto
next
  case (Cons e before)
  then show ?case
    by (cases "is_layout_entry L e") auto
qed

lemma demo_extract: "extract_layouts_from_zip demo_lib (ascii ''zip'') = Inr demo_layouts"
  by (simp add: extract_layouts_from_zip_def demo_lib_def demo_zip_def is_layout_entry_def
      layout_key_def endswith_def ascii_def str_def demo_layouts_def)

lemma bad_extract:
  "extract_layouts_from_zip demo_lib (ascii ''bad'') =
     Inl (Exn UnicodeDecodeError (str ''invalid start byte''))"
  by (simp add: extract_layouts_from_zip_def demo_lib_def bad_zip_def is_layout_entry_def
      layout_key_def endswith_def ascii_def str_def)

text \<open>
  Claim C7, as the code has it. When the bytes of a layout entry fail to decode, and the
  layout entries before it were read and decoded, the extraction is aborted with the
  decoding error: no map is returned, and the entries after it are not extracted.
\<close>

theorem undecodable_entry_aborts_extraction:
  assumes "open_zip L zip_bytes = Inr zf"
    and "namelist zf = before @ entry # after"
    and "\<forall>e\<in>set before. is_layout_entry L e \<longrightarrow>
           (\<exists>d x. read zf e = Inr d \<and> utf8_decode L d = Inr x)"
    and "is_layout_entry L entry"
    and "read zf entry = Inr data"
    and "utf8_decode L data = Inl err"
  shows "extract_layouts_from_zip L zip_bytes = Inl err"
proof -
  from assms(3) obtain result' where
    "entries_loop L zf (before @ entry # after) Map.empty = entries_loop L zf (entry # after) result'"
    using entries_loop_skip by blast
  with assms show ?thesis
    by (simp add: extract_layouts_from_zip_def)
qed

text \<open>
  Claim C7 as stated fails: in an archive whose first layout entry is the byte \<open>0xFF\<close> and
  whose second is a decodable layout, the extraction raises \<^verbatim>\<open>UnicodeDecodeError\<close>; it does
  not return a map with the first entry left out and the second kept.
\<close>

theorem undecodable_entry_counterexample:
  "open_zip demo_lib (ascii ''bad'') = Inr bad_zip \<and>
   namelist bad_zip = [str ''unpackaged/layouts/Account-Main.layout'',
                       str ''unpackaged/layouts/Contact-Main.layout''] \<and>
   read bad_zip (str ''unpackaged/layouts/Account-Main.layout'') = Inr [255] \<and>
   utf8_decode demo_lib [255] = Inl (Exn UnicodeDecodeError (str ''invalid start byte'')) \<and>
   read bad_zip (str ''unpackaged/layouts/Contact-Main.layout'') = Inr (ascii ''account'') \<and>
   utf8_decode demo_lib (ascii ''account'') = Inr (str ''account'') \<and>
   extract_layouts_from_zip demo_lib (ascii ''bad'') =
     Inl (Exn UnicodeDecodeError (str ''invalid start byte'')) \<and>
   \<not> (\<exists>m. extract_layouts_from_zip demo_lib (ascii ''bad'') = Inr m \<and>
           m (str ''Account-Main'') = None \<and> m (str ''Contact-Main'') = Some (str ''account''))"
  by (simp add: bad_extract) (simp add: demo_lib_def bad_zip_def ascii_def str_def)

theorem undecodable_entry_aborts_extraction_witness:
  "is_layout_entry demo_lib (str ''unpackaged/layouts/Account-Main.layout'') \<and>
   extract_layouts_from_zip demo_lib (ascii ''bad'') =
     Inl (Exn UnicodeDecodeError (str ''invalid start byte''))"
proof -
  have z: "open_zip demo_lib (ascii ''bad'') = Inr bad_zip"
    by (simp add: demo_lib_def ascii_def)
  have n: "namelist bad_zip = [] @ str ''unpackaged/layouts/Account-Main.layout'' #
      [str ''unpackaged/layouts/Contact-Main.layout'']"
    by (simp add: bad_zip_def)
  have e: "is_layout_entry demo_lib (str ''unpackaged/layouts/Account-Main.layout'')"
    by (simp add: is_layout_entry_def demo_lib_def endswith_def str_def)
  have r: "read bad_zip (str ''unpackaged/layouts/Account-Main.layout'') = Inr [255]"
    by (simp add: bad_zip_def)
  have d: "utf8_decode demo_lib [255] = Inl (Exn UnicodeDecodeError (str ''invalid start byte''))"
    by (simp add: demo_lib_def)
  from undecodable_entry_aborts_extraction [OF z n _ e r d] e show ?thesis
    by simp
qed

section \<open>The report rows\<close>

lemma names_loop_step:
  "names_loop L (name # names) src tgt (rows, summ) =
     names_loop L names src tgt
       (rows @ fst (names_loop L [name] src tgt ([], [])),
        summ @ snd (names_loop L [name] src tgt ([], [])))"
  by (simp add: Let_def split: option.splits sum.splits prod.splits)

lemma names_loop_rows:
  "fst (names_loop L names src tgt (rows, summ)) = rows @ map (row_for L src tgt) names"
proof (induction names arbitrary: rows summ)
  case Nil
  then show ?case by simp
next
  case (Cons name names)
  have single: "fst (names_loop L [name] src tgt ([], [])) = [row_for L src tgt name]"
    by (simp add: row_for_def Let_def split: option.splits sum.splits prod.splits)
  have "fst (names_loop L (name # names) src tgt (rows, summ)) =
        fst (names_loop L names src tgt
          (rows @ [row_for L src tgt name], summ @ snd (names_loop L [name] src tgt ([], []))))"
    by (subst names_loop_step) (simp only: single)
  also have "\<dots> = (rows @ [row_for L src tgt name]) @ map (row_for L src tgt) names"
    by (rule Cons.IH)
  finally show ?case
    by simp
qed

lemma names_loop_nth:
  "i < length names \<Longrightarrow>
     fst (names_loop L names src tgt ([], [])) ! i = row_for L src tgt (names ! i)"
  by (simp add: names_loop_rows)

lemma row_for_names:
  "row_for L src tgt name Source_Layout_Name = StrCell name"
  "row_for L src tgt name Target_Layout_Name = StrCell name"
  by (simp_all add: row_for_def blank_row_def compared_row_def Let_def
      split: option.splits sum.splits prod.splits)

lemma row_for_parse_error:
  assumes "src name = Some src_xml" "tgt name = Some tgt_xml" "parse_both L src_xml tgt_xml = Inl err"
  shows "row_for L src tgt name = blank_row name name (str ''Parse Error: '' @ exn_str err)"
  using assms by (simp add: row_for_def)

lemma row_for_compared:
  assumes "src name = Some src_xml" "tgt name = Some tgt_xml"
    "parse_both L src_xml tgt_xml = Inr (s, t)"
  shows "row_for L src tgt name = compared_row name (compare s t)"
  using assms by (simp add: row_for_def Let_def)

lemma demo_lookup:
  "demo_names ! 0 = str ''Case-Main''" "demo_names ! Suc 0 = str ''Account-Main''"
  "demo_names ! 2 = str ''Contact-Main''" "length demo_names = 3"
  "demo_layouts (str ''Case-Main'') = None"
  "demo_layouts (str ''Account-Main'') = Some (str ''account'')"
  "demo_layouts (str ''Contact-Main'') = Some (str ''<Layout'')"
  by (simp_all add: demo_names_def demo_layouts_def str_def)

lemma write_report_success:
  "write_report L names out same su tu v st w = (SuccessResponse r, w') \<Longrightarrow>
     files w' (csv_file r) = Some (fst st)"
  by (auto simp: write_report_def Let_def split: option.splits)

lemma tool_success_rows:
  assumes "compare_page_layouts L layout_names source_id target_id out w = (SuccessResponse r, w')"
  shows "\<exists>src_layouts tgt_layouts.
    files w' (csv_file r) =
      Some (fst (names_loop L (parse_names layout_names) src_layouts tgt_layouts ([], [])))"
proof -
  from assms obtain same su tu v src_layouts tgt_layouts w1 where
    "write_report L (parse_names layout_names) out same su tu v
       (names_loop L (parse_names layout_names) src_layouts tgt_layouts ([], [])) w1 =
     (SuccessResponse r, w')"
    by (auto simp: compare_page_layouts_def Let_def split: if_splits sum.splits prod.splits)
  then show ?thesis
    using write_report_success by blast
qed

text \<open>
  Claim C6. When both payloads of a requested name are present and parsing fails on the
  source, or on the target after the source parsed, the row of that name is the blank row
  with status \<open>Parse Error: <message>\<close>, every diff column empty. The loop still writes
  one row per requested name, and the row of each name is the row that name gets when it
  is requested alone: no other row depends on the failure.
\<close>

theorem parse_error_confined_to_its_row:
  assumes i: "i < length names"
    and present: "src_layouts (names ! i) = Some src_xml" "tgt_layouts (names ! i) = Some tgt_xml"
    and fails: "parse_layout L src_xml = Inl err \<or>
                (\<exists>m. parse_layout L src_xml = Inr m \<and> parse_layout L tgt_xml = Inl err)"
  shows "length (fst (names_loop L names src_layouts tgt_layouts ([], []))) = length names \<and>
    fst (names_loop L names src_layouts tgt_layouts ([], [])) ! i =
      blank_row (names ! i) (names ! i) (str ''Parse Error: '' @ exn_str err) \<and>
    (\<forall>col. col \<notin> {Source_Layout_Name, Target_Layout_Name, Status} \<longrightarrow>
       (fst (names_loop L names src_layouts tgt_layouts ([], [])) ! i) col = StrCell []) \<and>
    (\<forall>j<length names.
       fst (names_loop L names src_layouts tgt_layouts ([], [])) ! j =
         row_for L src_layouts tgt_layouts (names ! j))"
proof -
  from fails have "parse_both L src_xml tgt_xml = Inl err"
    by (auto simp: parse_both_def)
  with present have "row_for L src_layouts tgt_layouts (names ! i) =
      blank_row (names ! i) (names ! i) (str ''Parse Error: '' @ exn_str err)"
    by (rule row_for_parse_error)
  with i show ?thesis
    by (simp add: names_loop_rows blank_row_def)
qed

theorem parse_error_confined_to_its_row_witness:
  "(2::nat) < length demo_names \<and>
   demo_layouts (demo_names ! 2) = Some (str ''<Layout'') \<and>
   parse_layout demo_lib (str ''<Layout'') =
     Inl (Exn ValueError (str ''Could not parse layout XML: syntax error'')) \<and>
   length (fst (names_loop demo_lib demo_names demo_layouts demo_layouts ([], []))) = 3 \<and>
   fst (names_loop demo_lib demo_names demo_layouts demo_layouts ([], [])) ! 2 =
     blank_row (str ''Contact-Main'') (str ''Contact-Main'')
       (str ''Parse Error: '' @ str ''Could not parse layout XML: syntax error'') \<and>
   (fst (names_loop demo_lib demo_names demo_layouts demo_layouts ([], [])) ! 1) Status =
     StrCell (str ''Compared'') \<and>
   (fst (names_loop demo_lib demo_names demo_layouts demo_layouts ([], [])) ! 0) Status =
     StrCell (str ''Not Found in Either Org'')"
proof -
  have i: "2 < length demo_names"
    by (simp add: demo_lookup)
  have present: "demo_layouts (demo_names ! 2) = Some (str ''<Layout'')"
    by (simp add: demo_lookup)
  have fails: "parse_layout demo_lib (str ''<Layout'') =
        Inl (Exn ValueError (str ''Could not parse layout XML: syntax error'')) \<or>
      (\<exists>m. parse_layout demo_lib (str ''<Layout'') = Inr m \<and>
        parse_layout demo_lib (str ''<Layout'') =
          Inl (Exn ValueError (str ''Could not parse layout XML: syntax error'')))"
    by (simp add: demo_parse)
  have row1: "row_for demo_lib demo_layouts demo_layouts (str ''Account-Main'') Status =
      StrCell (str ''Compared'')"
    using row_for_compared [where src = demo_layouts and tgt = demo_layouts
        and name = "str ''Account-Main''", OF demo_lookup(6) demo_lookup(6)
        parse_both_same [OF demo_parse(1)]]
    by (simp add: compared_row_def blank_row_def)
  have row0: "row_for demo_lib demo_layouts demo_layouts (str ''Case-Main'') Status =
      StrCell (str ''Not Found in Either Org'')"
    by (simp add: row_for_def demo_lookup blank_row_def)
  note main = parse_error_confined_to_its_row [where src_layouts = demo_layouts
      and tgt_layouts = demo_layouts and names = demo_names and i = 2, OF i present present fails]
  from main have each: "fst (names_loop demo_lib demo_names demo_layouts demo_layouts ([], [])) ! j =
      row_for demo_lib demo_layouts demo_layouts (demo_names ! j)" if "j < length demo_names" for j
    using that by blast
  have r0: "(fst (names_loop demo_lib demo_names demo_layouts demo_layouts ([], [])) ! 0) Status =
      StrCell (str ''Not Found in Either Org'')"
    using each [of 0] row0 by (simp add: demo_lookup)
  have r1: "(fst (names_loop demo_lib demo_names demo_layouts demo_layouts ([], [])) ! 1) Status =
      StrCell (str ''Compared'')"
    using each [of 1] row1 by (simp add: demo_lookup)
  from main r0 r1 present show ?thesis
    by (simp add: demo_lookup demo_parse)
qed

text \<open>
  Claim C8. Whatever the two maps of retrieved layouts hold, the loop writes one row per
  requested name, and the names in the rows are the requested names in the requested
  order. When the tool reports success, the file it names holds such rows for the names
  parsed from the argument.
\<close>

theorem rows_follow_requested_order:
  "length (fst (names_loop L names src_layouts tgt_layouts ([], []))) = length names \<and>
   map (\<lambda>row. row Source_Layout_Name) (fst (names_loop L names src_layouts tgt_layouts ([], []))) =
     map StrCell names \<and>
   map (\<lambda>row. row Target_Layout_Name) (fst (names_loop L names src_layouts tgt_layouts ([], []))) =
     map StrCell names \<and>
   (\<forall>r w'. compare_page_layouts L layout_names source_id target_id out w = (SuccessResponse r, w') \<longrightarrow>
      (\<exists>rows. files w' (csv_file r) = Some rows \<and>
         length rows = length (parse_names layout_names) \<and>
         map (\<lambda>row. row Source_Layout_Name) rows = map StrCell (parse_names layout_names) \<and>
         map (\<lambda>row. row Target_Layout_Name) rows = map StrCell (parse_names layout_names)))"
proof -
  have rows: "length (fst (names_loop L ns s t ([], []))) = length ns \<and>
      map (\<lambda>row. row Source_Layout_Name) (fst (names_loop L ns s t ([], []))) = map StrCell ns \<and>
      map (\<lambda>row. row Target_Layout_Name) (fst (names_loop L ns s t ([], []))) = map StrCell ns"
    for ns s t
    by (simp add: names_loop_rows row_for_names comp_def)
  have "\<exists>rows. files w' (csv_file r) = Some rows \<and>
         length rows = length (parse_names layout_names) \<and>
         map (\<lambda>row. row Source_Layout_Name) rows = map StrCell (parse_names layout_names) \<and>
         map (\<lambda>row. row Target_Layout_Name) rows = map StrCell (parse_names layout_names)"
    if "compare_page_layouts L layout_names source_id target_id out w = (SuccessResponse r, w')"
    for r w'
    using tool_success_rows [OF that] rows by metis
  with rows show ?thesis
    by blast
qed

section \<open>The retrieve protocol client and the tool\<close>

lemma actions_differ: "str ''checkRetrieveStatus'' \<noteq> str ''retrieve''"
  by (simp add: str_def)

lemma soap_post_frame:
  "posts (snd (soap_post L url body action w)) =
     posts w @ [\<lparr>req_url = url, req_body = body, req_action = action\<rparr>]"
  "files (snd (soap_post L url body action w)) = files w"
  "http (snd (soap_post L url body action w)) = http w"
  "clock (snd (soap_post L url body action w)) =
     clock w + fst (http w (posts w @ [\<lparr>req_url = url, req_body = body, req_action = action\<rparr>]))"
  by (simp_all add: soap_post_def Let_def split: sum.splits)

lemma soap_post_retrieve_count:
  "retrieve_count (snd (soap_post L url body action w)) =
     (if action = str ''retrieve'' then Suc (retrieve_count w) else retrieve_count w)"
  by (simp add: retrieve_count_def soap_post_frame)

lemma poll_frame:
  "files (snd (poll L instance_url token ver meta_url retrieve_id deadline w)) = files w \<and>
   http (snd (poll L instance_url token ver meta_url retrieve_id deadline w)) = http w \<and>
   retrieve_count (snd (poll L instance_url token ver meta_url retrieve_id deadline w)) =
     retrieve_count w \<and>
   clock w \<le> clock (snd (poll L instance_url token ver meta_url retrieve_id deadline w))"
proof (induction L instance_url token ver meta_url retrieve_id deadline w rule: poll.induct)
  case (1 L instance_url token ver meta_url retrieve_id deadline w)
  show ?case
  proof (cases "clock w < deadline")
    case False
    then show ?thesis
      by (subst (1 2 3 4) poll.simps) simp
  next
    case True
    show ?thesis
    proof (cases "build_status_envelope L token ver retrieve_id")
      case (Inl e)
      with True show ?thesis
        by (subst (1 2 3 4) poll.simps) simp
    next
      case built: (Inr status_body)
      let ?post = "soap_post L meta_url status_body (str ''checkRetrieveStatus'') w"
      obtain x w' where post: "?post = (x, w')"
        by (cases ?post)
      have w': "files w' = files w" "http w' = http w" "retrieve_count w' = retrieve_count w"
        "clock w \<le> clock w'"
        using soap_post_frame(2,3,4) [of L meta_url status_body "str ''checkRetrieveStatus''" w]
          soap_post_retrieve_count [of L meta_url status_body "str ''checkRetrieveStatus''" w]
          post actions_differ by simp_all
      show ?thesis
      proof (cases x)
        case (Inl e)
        with True built post w' show ?thesis
          by (subst (1 2 3 4) poll.simps) simp
      next
        case (Inr status_root)
        show ?thesis
        proof (cases "is_done status_root")
          case True
          with \<open>clock w < deadline\<close> built post Inr w' show ?thesis
            by (subst (1 2 3 4) poll.simps) simp
        next
          case False
          let ?next = "poll L instance_url token ver meta_url retrieve_id deadline
                         (w'\<lparr>clock := clock w' + 3000\<rparr>)"
          from "1.IH" [OF True built post [symmetric] Inr False] w'
          have "files (snd ?next) = files w \<and> http (snd ?next) = http w \<and>
                retrieve_count (snd ?next) = retrieve_count w \<and> clock w \<le> clock (snd ?next)"
            by (simp add: retrieve_count_def)
          with True built post Inr False show ?thesis
            by (subst (1 2 3 4) poll.simps) simp
        qed
      qed
    qed
  qed
qed

lemma fetch_frame:
  "files (snd (fetch_all_layouts L instance_url token ver names w)) = files w \<and>
   http (snd (fetch_all_layouts L instance_url token ver names w)) = http w \<and>
   retrieve_count (snd (fetch_all_layouts L instance_url token ver names w)) =
     retrieve_count w +
       (case build_retrieve_envelope L token ver names of Inl e \<Rightarrow> 0 | Inr body \<Rightarrow> 1) \<and>
   clock w \<le> clock (snd (fetch_all_layouts L instance_url token ver names w))"
proof (cases "build_retrieve_envelope L token ver names")
  case (Inl e)
  then show ?thesis
    by (simp add: fetch_all_layouts_def)
next
  case built: (Inr body)
  let ?meta = "instance_url @ str ''/services/Soap/m/'' @ ver"
  let ?post = "soap_post L ?meta body (str ''retrieve'') w"
  obtain x w' where post: "?post = (x, w')"
    by (cases ?post)
  have w': "files w' = files w" "http w' = http w" "retrieve_count w' = Suc (retrieve_count w)"
    "clock w \<le> clock w'"
    using soap_post_frame(2,3,4) [of L ?meta body "str ''retrieve''" w]
      soap_post_retrieve_count [of L ?meta body "str ''retrieve''" w] post by simp_all
  have "files (snd (poll L instance_url token ver ?meta r d w')) = files w \<and>
      http (snd (poll L instance_url token ver ?meta r d w')) = http w \<and>
      retrieve_count (snd (poll L instance_url token ver ?meta r d w')) = Suc (retrieve_count w) \<and>
      clock w \<le> clock (snd (poll L instance_url token ver ?meta r d w'))" for r d
    using poll_frame [of L instance_url token ver ?meta r d w'] w' by simp
  with built post w' show ?thesis
    by (auto simp: fetch_all_layouts_def Let_def split: sum.splits option.splits)
qed

lemma write_report_frame:
  "retrieve_count (snd (write_report L names out same su tu v st w)) = retrieve_count w"
  by (simp add: write_report_def Let_def retrieve_count_def split: option.splits)

lemma write_report_posts:
  "posts (snd (write_report L names out same su tu v st w)) = posts w"
  by (simp add: write_report_def Let_def split: option.splits)



lemma same_org_run:
  assumes "parse_names layout_names \<noteq> []"
    and "get_org_credentials w source_id = Inr (url, token, ver)"
    and "get_org_credentials w target_id = Inr (url, token, ver')"
    and "fetch_all_layouts L url token ver (parse_names layout_names) w = (x, w1)"
  shows "compare_page_layouts L layout_names source_id target_id out w =
      (case x of
         Inl e \<Rightarrow> (ErrorResponse e (str ''compare_page_layouts (fetch source layouts)''), w1)
       | Inr src_layouts \<Rightarrow>
           write_report L (parse_names layout_names) out True url url ver
             (names_loop L (parse_names layout_names) src_layouts src_layouts ([], [])) w1)"
  using assms by (simp add: compare_page_layouts_def Let_def split: sum.splits)

lemma demo_parse_names:
  "parse_names (str ''Case-Main, Account-Main,,Contact-Main '') = demo_names"
  by (simp add: parse_names_def demo_names_def strip_def py_isspace_def str_def)

lemma demo_credentials:
  "get_org_credentials demo_world None = Inr (str ''https://a.example.com'', str ''tokenA'', str ''59.0'')"
  "get_org_credentials demo_world (Some (str ''005B'')) =
     Inr (str ''https://b.example.com'', str ''tokenB'', str ''59.0'')"
  by (simp_all add: get_org_credentials_def demo_world_def str_def)

lemma find_el_demo:
  "find_el submitted_root (str ''id'') = Some (m_el ''id'' (Some (str ''09S1'')) [])"
  "is_done done_root"
  "\<not> is_done pending_root"
  "find_el done_root (str ''status'') = Some (m_el ''status'' (Some (str ''Succeeded'')) [])"
  "find_el done_root (str ''zipFile'') = Some (m_el ''zipFile'' (Some (str ''zip'')) [])"
  by (simp_all add: find_el_def is_done_def submitted_root_def done_root_def pending_root_def
      m_el_def str_def)

lemma str_small: "list_all (\<lambda>c. c < 256) (str s)"
  by (simp add: str_def list_all_iff)

lemma join_small:
  "list_all P sep \<Longrightarrow> list_all (list_all P) xs \<Longrightarrow> list_all P (join sep xs)"
  by (induction sep xs rule: join.induct) simp_all

lemma envelope_text_small:
  "list_all (\<lambda>c. c < 256) token \<Longrightarrow> list_all (\<lambda>c. c < 256) ver \<Longrightarrow>
     list_all (list_all (\<lambda>c. c < 256)) names \<Longrightarrow>
     list_all (\<lambda>c. c < 256) (retrieve_envelope_text token ver names)"
  "list_all (\<lambda>c. c < 256) token \<Longrightarrow> list_all (\<lambda>c. c < 256) rid \<Longrightarrow>
     list_all (\<lambda>c. c < 256) (status_envelope_text token ver (Some rid))"
  by (simp_all add: retrieve_envelope_text_def status_envelope_text_def Let_def str_small
      join_small dquote_def newline_def METADATA_NS_def list.pred_map comp_def)

lemma demo_encode_small:
  "list_all (\<lambda>c. c < 256) s \<Longrightarrow> utf8_encode demo_lib s = Inr (concat (map utf8_bytes s))"
  by (auto simp: demo_lib_def demo_encode_def list_all_iff)

lemma demo_envelopes:
  "build_retrieve_envelope demo_lib (str t) (str ''59.0'') demo_names =
     Inr (concat (map utf8_bytes (retrieve_envelope_text (str t) (str ''59.0'') demo_names)))"
  "build_status_envelope demo_lib (str t) (str ''59.0'') (Some (str ''09S1'')) =
     Inr (concat (map utf8_bytes
            (status_envelope_text (str t) (str ''59.0'') (Some (str ''09S1'')))))"
  by (simp_all add: build_retrieve_envelope_def build_status_envelope_def demo_encode_small
      envelope_text_small str_small demo_names_def)

lemma demo_fetch:
  "fetch_all_layouts demo_lib (str ''https://a.example.com'') (str ''tokenA'') (str ''59.0'')
     demo_names demo_world =
   (Inr demo_layouts, demo_world\<lparr>posts := org_a_requests, clock := 2000\<rparr>)"
  "fetch_all_layouts demo_lib (str ''https://a.example.com'') (str ''tokenA'') (str ''59.0'')
     demo_names late_world =
   (Inr demo_layouts, late_world\<lparr>posts := org_a_requests, clock := 126000\<rparr>)"
proof -
  have url: "str ''https://a.example.com'' @ str ''/services/Soap/m/'' @ str ''59.0'' =
      str ''https://a.example.com/services/Soap/m/59.0''"
    by (simp add: str_def)
  have b64: "b64decode demo_lib (str ''zip'') = Inr (ascii ''zip'')"
    by (simp add: demo_lib_def str_def ascii_def)
  have parse: "fromstring demo_lib (ascii ''submitted'') = Inr submitted_root"
    "fromstring demo_lib (ascii ''done'') = Inr done_root"
    by (simp_all add: demo_lib_def demo_fromstring_def ascii_def)
  have neq: "str ''checkRetrieveStatus'' \<noteq> str ''retrieve''" "str ''Succeeded'' \<noteq> str ''Failed''"
    "str ''zip'' \<noteq> []"
    by (simp_all add: str_def)
  show "fetch_all_layouts demo_lib (str ''https://a.example.com'') (str ''tokenA'') (str ''59.0'')
     demo_names demo_world =
   (Inr demo_layouts, demo_world\<lparr>posts := org_a_requests, clock := 2000\<rparr>)"
    unfolding fetch_all_layouts_def url
    apply (simp add: demo_envelopes soap_post_def Let_def demo_world_def demo_http_def parse
        find_el_demo)
    apply (subst poll.simps)
    apply (simp add: demo_envelopes soap_post_def Let_def demo_http_def parse find_el_demo neq
        completed_def m_el_def b64 demo_extract org_a_requests_def)
    done
  show "fetch_all_layouts demo_lib (str ''https://a.example.com'') (str ''tokenA'') (str ''59.0'')
     demo_names late_world =
   (Inr demo_layouts, late_world\<lparr>posts := org_a_requests, clock := 126000\<rparr>)"
    unfolding fetch_all_layouts_def url
    apply (simp add: demo_envelopes soap_post_def Let_def late_world_def demo_world_def
        late_http_def parse find_el_demo)
    apply (subst poll.simps)
    apply (simp add: demo_envelopes soap_post_def Let_def late_http_def parse find_el_demo neq
        completed_def m_el_def b64 demo_extract org_a_requests_def)
    done
qed

lemma demo_run:
  "compare_page_layouts demo_lib demo_input None None None demo_world =
     write_report demo_lib demo_names None True (str ''https://a.example.com'')
       (str ''https://a.example.com'') (str ''59.0'')
       (names_loop demo_lib demo_names demo_layouts demo_layouts ([], []))
       (demo_world\<lparr>posts := org_a_requests, clock := 2000\<rparr>)"
proof -
  have names: "parse_names demo_input = demo_names" "demo_names \<noteq> []"
    using demo_parse_names by (simp_all add: demo_input_def demo_names_def)
  from same_org_run [of demo_input demo_world None _ _ _ None _ demo_lib, OF _ demo_credentials(1)
      demo_credentials(1)] names demo_fetch(1)
  show ?thesis
    by simp
qed

lemma demo_run_success:
  "\<exists>r w'. compare_page_layouts demo_lib demo_input None None None demo_world = (SuccessResponse r, w') \<and>
     csv_file r = str ''/srv/Documents/page_layout_comparison_20260101_120000.csv''"
  unfolding demo_run
  by (simp add: write_report_def csv_path_of_def Let_def demo_world_def demo_lib_def str_def)




theorem rows_follow_requested_order_witness:
  "\<exists>r w' rows.
     compare_page_layouts demo_lib demo_input None None None demo_world = (SuccessResponse r, w') \<and>
     csv_file r = str ''/srv/Documents/page_layout_comparison_20260101_120000.csv'' \<and>
     files w' (csv_file r) = Some rows \<and>
     map (\<lambda>row. row Source_Layout_Name) rows =
       [StrCell (str ''Case-Main''), StrCell (str ''Account-Main''), StrCell (str ''Contact-Main'')]"
proof -
  from demo_run_success obtain r w' where
    run: "compare_page_layouts demo_lib demo_input None None None demo_world = (SuccessResponse r, w')"
    and path: "csv_file r = str ''/srv/Documents/page_layout_comparison_20260101_120000.csv''"
    by blast
  have names: "parse_names demo_input = demo_names"
    using demo_parse_names by (simp add: demo_input_def)
  from rows_follow_requested_order [of demo_lib "[]" Map.empty Map.empty demo_input None None None
      demo_world] run
  obtain rows where "files w' (csv_file r) = Some rows"
    "map (\<lambda>row. row Source_Layout_Name) rows = map StrCell (parse_names demo_input)"
    by blast
  with run path names show ?thesis
    by (auto simp: demo_names_def)
qed

text \<open>
  Claim C4. Let at least one name be requested and both organizations resolve to the
  same base URL and token. Then the run is one call of the retrieval client followed, when
  the call returns layouts, by the report computed with that result on both sides: the
  requests of the run are the requests of that one call, among them one \<^verbatim>\<open>retrieve\<close>
  request (none when the request envelope cannot be encoded, so that the call fails
  before it posts). The row of every requested name whose payload is present and parses
  has the status \<open>Compared\<close>, its six difference cells empty and its six difference
  counts zero.
\<close>

theorem same_org_one_retrieval_zero_diffs:
  assumes names: "parse_names layout_names \<noteq> []"
    and src: "get_org_credentials w source_id = Inr (url, token, ver)"
    and tgt: "get_org_credentials w target_id = Inr (url, token, ver')"
  shows "compare_page_layouts L layout_names source_id target_id out w =
      (case fetch_all_layouts L url token ver (parse_names layout_names) w of
         (Inl e, w1) \<Rightarrow>
           (ErrorResponse e (str ''compare_page_layouts (fetch source layouts)''), w1)
       | (Inr src_layouts, w1) \<Rightarrow>
           write_report L (parse_names layout_names) out True url url ver
             (names_loop L (parse_names layout_names) src_layouts src_layouts ([], [])) w1) \<and>
    posts (snd (compare_page_layouts L layout_names source_id target_id out w)) =
      posts (snd (fetch_all_layouts L url token ver (parse_names layout_names) w)) \<and>
    retrieve_count (snd (compare_page_layouts L layout_names source_id target_id out w)) =
      retrieve_count w +
        (case build_retrieve_envelope L token ver (parse_names layout_names) of
           Inl e \<Rightarrow> 0
         | Inr body \<Rightarrow> 1) \<and>
    (\<forall>src_layouts w1.
       fetch_all_layouts L url token ver (parse_names layout_names) w = (Inr src_layouts, w1) \<longrightarrow>
       (\<forall>i<length (parse_names layout_names). \<forall>xml m.
          src_layouts (parse_names layout_names ! i) = Some xml \<and> parse_layout L xml = Inr m \<longrightarrow>
          (fst (names_loop L (parse_names layout_names) src_layouts src_layouts ([], [])) ! i) Status =
            StrCell (str ''Compared'') \<and>
          (\<forall>col\<in>{Fields_Missing_in_Target, Fields_Extra_in_Target, Sections_Missing_in_Target,
                   Sections_Extra_in_Target, Related_Lists_Missing_in_Target,
                   Related_Lists_Extra_in_Target}.
             (fst (names_loop L (parse_names layout_names) src_layouts src_layouts ([], [])) ! i) col =
               StrCell []) \<and>
          (\<forall>col\<in>{Fields_Missing_Count, Fields_Extra_Count, Sections_Missing_Count,
                   Sections_Extra_Count, Related_Lists_Missing_Count, Related_Lists_Extra_Count}.
             (fst (names_loop L (parse_names layout_names) src_layouts src_layouts ([], [])) ! i) col =
               IntCell 0)))"
proof -
  let ?names = "parse_names layout_names"
  let ?fetch = "fetch_all_layouts L url token ver ?names w"
  obtain x w1 where fetch: "?fetch = (x, w1)"
    by (cases ?fetch)
  have frame: "posts (snd ?fetch) = posts w1"
    "retrieve_count w1 = retrieve_count w +
       (case build_retrieve_envelope L token ver ?names of Inl e \<Rightarrow> 0 | Inr body \<Rightarrow> 1)"
    using fetch_frame [of L url token ver ?names w] fetch by simp_all
  have run: "compare_page_layouts L layout_names source_id target_id out w =
      (case x of
         Inl e \<Rightarrow> (ErrorResponse e (str ''compare_page_layouts (fetch source layouts)''), w1)
       | Inr src_layouts \<Rightarrow>
           write_report L ?names out True url url ver
             (names_loop L ?names src_layouts src_layouts ([], [])) w1)"
    using names src tgt fetch by (rule same_org_run)
  have shape: "compare_page_layouts L layout_names source_id target_id out w =
      (case ?fetch of
         (Inl e, w1) \<Rightarrow>
           (ErrorResponse e (str ''compare_page_layouts (fetch source layouts)''), w1)
       | (Inr src_layouts, w1) \<Rightarrow>
           write_report L ?names out True url url ver
             (names_loop L ?names src_layouts src_layouts ([], [])) w1)"
    unfolding run fetch by (cases x) simp_all
  have posts: "posts (snd (compare_page_layouts L layout_names source_id target_id out w)) =
      posts (snd ?fetch)"
    unfolding run frame(1) by (cases x) (simp_all add: write_report_posts)
  have count: "retrieve_count (snd (compare_page_layouts L layout_names source_id target_id out w)) =
      retrieve_count w +
        (case build_retrieve_envelope L token ver ?names of Inl e \<Rightarrow> 0 | Inr body \<Rightarrow> 1)"
    unfolding run using frame(2) by (cases x) (simp_all add: write_report_frame)
  have rows: "fst (names_loop L ?names src_layouts src_layouts ([], [])) ! i =
      compared_row (?names ! i) (compare m m)"
    if "i < length ?names" "src_layouts (?names ! i) = Some xml" "parse_layout L xml = Inr m"
    for src_layouts i xml m
    using that by (simp add: names_loop_nth row_for_compared [OF _ _ parse_both_same])
  have zero: "\<forall>src_layouts w1.
       ?fetch = (Inr src_layouts, w1) \<longrightarrow>
       (\<forall>i<length ?names. \<forall>xml m.
          src_layouts (?names ! i) = Some xml \<and> parse_layout L xml = Inr m \<longrightarrow>
          (fst (names_loop L ?names src_layouts src_layouts ([], [])) ! i) Status =
            StrCell (str ''Compared'') \<and>
          (\<forall>col\<in>{Fields_Missing_in_Target, Fields_Extra_in_Target, Sections_Missing_in_Target,
                   Sections_Extra_in_Target, Related_Lists_Missing_in_Target,
                   Related_Lists_Extra_in_Target}.
             (fst (names_loop L ?names src_layouts src_layouts ([], [])) ! i) col = StrCell []) \<and>
          (\<forall>col\<in>{Fields_Missing_Count, Fields_Extra_Count, Sections_Missing_Count,
                   Sections_Extra_Count, Related_Lists_Missing_Count, Related_Lists_Extra_Count}.
             (fst (names_loop L ?names src_layouts src_layouts ([], [])) ! i) col = IntCell 0))"
    by (auto simp: rows compare_self compared_row_def blank_row_def cell_def)
  from shape posts count zero show ?thesis
    by (intro conjI)
qed

theorem same_org_one_retrieval_zero_diffs_witness:
  "parse_names demo_input \<noteq> [] \<and>
   get_org_credentials demo_world None =
     Inr (str ''https://a.example.com'', str ''tokenA'', str ''59.0'') \<and>
   retrieve_count (snd (compare_page_layouts demo_lib demo_input None None None demo_world)) = 1 \<and>
   posts (snd (compare_page_layouts demo_lib demo_input None None None demo_world)) =
     org_a_requests \<and>
   fetch_all_layouts demo_lib (str ''https://a.example.com'') (str ''tokenA'') (str ''59.0'')
     (parse_names demo_input) demo_world =
     (Inr demo_layouts, demo_world\<lparr>posts := org_a_requests, clock := 2000\<rparr>) \<and>
   demo_layouts (parse_names demo_input ! 1) = Some (str ''account'') \<and>
   parse_layout demo_lib (str ''account'') = Inr (layout_of_root account_root) \<and>
   (fst (names_loop demo_lib (parse_names demo_input) demo_layouts demo_layouts ([], [])) ! 1) Status =
     StrCell (str ''Compared'') \<and>
   (fst (names_loop demo_lib (parse_names demo_input) demo_layouts demo_layouts ([], [])) ! 1)
     Fields_Missing_in_Target = StrCell [] \<and>
   (fst (names_loop demo_lib (parse_names demo_input) demo_layouts demo_layouts ([], [])) ! 1)
     Fields_Missing_Count = IntCell 0"
proof -
  have names: "parse_names demo_input = demo_names" "parse_names demo_input \<noteq> []"
    using demo_parse_names by (simp_all add: demo_input_def demo_names_def)
  have fetch: "fetch_all_layouts demo_lib (str ''https://a.example.com'') (str ''tokenA'')
      (str ''59.0'') (parse_names demo_input) demo_world =
      (Inr demo_layouts, demo_world\<lparr>posts := org_a_requests, clock := 2000\<rparr>)"
    using demo_fetch(1) names(1) by simp
  have zero: "retrieve_count demo_world = 0"
    by (simp add: retrieve_count_def demo_world_def)
  have built: "build_retrieve_envelope demo_lib (str ''tokenA'') (str ''59.0'')
      (parse_names demo_input) =
    Inr (concat (map utf8_bytes
      (retrieve_envelope_text (str ''tokenA'') (str ''59.0'') demo_names)))"
    using demo_envelopes(1) [of "''tokenA''"] names(1) by simp
  have present: "1 < length (parse_names demo_input)"
    "demo_layouts (parse_names demo_input ! 1) = Some (str ''account'')"
    by (simp_all add: names(1) demo_lookup)
  note main = same_org_one_retrieval_zero_diffs [where L = demo_lib and out = None,
      OF names(2) demo_credentials(1) demo_credentials(1)]
  from main
  have "retrieve_count (snd (compare_page_layouts demo_lib demo_input None None None
      demo_world)) =
    retrieve_count demo_world +
      (case build_retrieve_envelope demo_lib (str ''tokenA'') (str ''59.0'')
              (parse_names demo_input) of
         Inl e \<Rightarrow> 0
       | Inr body \<Rightarrow> 1)"
    by blast
  then have count: "retrieve_count (snd (compare_page_layouts demo_lib demo_input None None None
      demo_world)) = 1"
    by (simp add: zero built)
  from main
  have "posts (snd (compare_page_layouts demo_lib demo_input None None None demo_world)) =
      posts (snd (fetch_all_layouts demo_lib (str ''https://a.example.com'') (str ''tokenA'')
        (str ''59.0'') (parse_names demo_input) demo_world))"
    by blast
  then have posts: "posts (snd (compare_page_layouts demo_lib demo_input None None None
      demo_world)) = org_a_requests"
    by (simp add: fetch)
  from main fetch present demo_parse(1)
  have "(fst (names_loop demo_lib (parse_names demo_input) demo_layouts demo_layouts ([], [])) ! 1)
      Status = StrCell (str ''Compared'') \<and>
    (fst (names_loop demo_lib (parse_names demo_input) demo_layouts demo_layouts ([], [])) ! 1)
      Fields_Missing_in_Target = StrCell [] \<and>
    (fst (names_loop demo_lib (parse_names demo_input) demo_layouts demo_layouts ([], [])) ! 1)
      Fields_Missing_Count = IntCell 0"
    by blast
  with names(2) demo_credentials(1) count posts fetch present(2) demo_parse(1) show ?thesis
    by blast
qed




end
